theory Spec2Isabelle
  imports Main
begin

section \<open>Values of the parsed configuration\<close>

text \<open>
  The mapping file is parsed into a JavaScript value and cast to \<^verbatim>\<open>GroupMapping\<close>
  unchecked (\<^verbatim>\<open>parseYaml(content) as GroupMapping\<close>), so every part of it can be any
  value the parser produces: \<^verbatim>\<open>null\<close>, a boolean, a number, a string, a list, or an
  object with string keys.  A number is an integer here or \<open>JNaN\<close>: the program never
  computes with one, it only tests it for truthiness and passes it on.  A string is a
  list of bytes (UTF-8).
\<close>

datatype jsvalue =
  JNull
  | JBool bool
  | JNumber int
  | JNaN
  | JString string
  | JArray "jsvalue list"
  | JObject "string \<rightharpoonup> jsvalue"

text \<open>The result of a property read with a computed key: \<^verbatim>\<open>undefined\<close>, a value of
  the configuration, or a built-in member inherited from a prototype (a function, or
  for \<^verbatim>\<open>__proto__\<close> the prototype object).\<close>

datatype property = Undefined | Value jsvalue | Builtin

text \<open>Truthiness, as \<^verbatim>\<open>if (x)\<close> and \<^verbatim>\<open>!x\<close> test it.\<close>

fun truthy :: "jsvalue \<Rightarrow> bool" where
  "truthy JNull = False"
| "truthy (JBool b) = b"
| "truthy (JNumber n) = (n \<noteq> 0)"
| "truthy JNaN = False"
| "truthy (JString s) = (s \<noteq> [])"
| "truthy (JArray xs) = True"
| "truthy (JObject props) = True"

fun truthyProperty :: "property \<Rightarrow> bool" where
  "truthyProperty Undefined = False"
| "truthyProperty (Value v) = truthy v"
| "truthyProperty Builtin = True"

text \<open>
  Errors.  Every \<^verbatim>\<open>throw\<close> of the source and every failure of an external call is a
  value: a function that can throw returns \<open>error + 'a\<close>, with \<open>Inl\<close> the error.
  \<open>Error msg\<close> is an \<^verbatim>\<open>Error\<close> object with that message; \<open>TypeError\<close> is what the
  runtime throws when a property of \<^verbatim>\<open>null\<close> or \<^verbatim>\<open>undefined\<close> is read (its message is
  the runtime's and is not modelled).
\<close>

datatype error = Error string | TypeError

text \<open>
  A property read with a fixed name, \<^verbatim>\<open>x.groups\<close>, \<^verbatim>\<open>x.defaults\<close>,
  \<^verbatim>\<open>x.unmappedGroups\<close>, \<^verbatim>\<open>x.defaultPolicies\<close>, \<^verbatim>\<open>x.octeliumGroup\<close>,
  \<^verbatim>\<open>x.displayName\<close>, \<^verbatim>\<open>x.policies\<close>, \<^verbatim>\<open>x.sync\<close>.  No built-in prototype has a
  member of one of these names, so the read returns the own property of an object and
  \<^verbatim>\<open>undefined\<close> (\<open>None\<close>) for every other value; on \<^verbatim>\<open>null\<close> it throws.
  \<open>optionalRead\<close> is the read behind \<^verbatim>\<open>x?.name\<close>, and \<open>nullish\<close> is \<^verbatim>\<open>a ?? b\<close>.
\<close>

fun readField :: "jsvalue \<Rightarrow> string \<Rightarrow> error + jsvalue option" where
  "readField JNull name = Inl TypeError"
| "readField (JObject props) name = Inr (props name)"
| "readField v name = Inr None"

fun optionalRead :: "jsvalue option \<Rightarrow> string \<Rightarrow> jsvalue option" where
  "optionalRead None name = None"
| "optionalRead (Some JNull) name = None"
| "optionalRead (Some (JObject props)) name = props name"
| "optionalRead (Some v) name = None"

fun nullish :: "jsvalue option \<Rightarrow> jsvalue \<Rightarrow> jsvalue" where
  "nullish None b = b"
| "nullish (Some JNull) b = b"
| "nullish (Some v) b = v"

text \<open>
  A property read with a computed key, \<^verbatim>\<open>x[key]\<close>.  An object gives its own property
  under that key and otherwise what the prototype chain holds, a member of
  \<^verbatim>\<open>Object.prototype\<close>.  A list gives its element at a canonical index, its
  \<^verbatim>\<open>length\<close>, or a member of \<^verbatim>\<open>Array.prototype\<close> or \<^verbatim>\<open>Object.prototype\<close>; a
  string its character at an index, its \<^verbatim>\<open>length\<close>, or a member of
  \<^verbatim>\<open>String.prototype\<close> or \<^verbatim>\<open>Object.prototype\<close>; a number or a boolean only the
  members of its prototype chain.  The member names are those of ECMAScript 2024.
  Reading from \<^verbatim>\<open>null\<close> throws.  The indices and the length of a string count its
  bytes here and its UTF-16 code units in JavaScript; they agree on ASCII strings.
\<close>

definition objectPrototypeKeys :: "string list" where
  "objectPrototypeKeys =
     [''constructor'', ''hasOwnProperty'', ''isPrototypeOf'', ''propertyIsEnumerable'',
      ''toLocaleString'', ''toString'', ''valueOf'', ''__proto__'',
      ''__defineGetter__'', ''__defineSetter__'', ''__lookupGetter__'', ''__lookupSetter__'']"

definition arrayPrototypeKeys :: "string list" where
  "arrayPrototypeKeys =
     [''at'', ''concat'', ''copyWithin'', ''entries'', ''every'', ''fill'', ''filter'',
      ''find'', ''findIndex'', ''findLast'', ''findLastIndex'', ''flat'', ''flatMap'',
      ''forEach'', ''includes'', ''indexOf'', ''join'', ''keys'', ''lastIndexOf'', ''map'',
      ''pop'', ''push'', ''reduce'', ''reduceRight'', ''reverse'', ''shift'', ''slice'',
      ''some'', ''sort'', ''splice'', ''toReversed'', ''toSorted'', ''toSpliced'',
      ''unshift'', ''values'', ''with'']"

definition stringPrototypeKeys :: "string list" where
  "stringPrototypeKeys =
     [''anchor'', ''at'', ''big'', ''blink'', ''bold'', ''charAt'', ''charCodeAt'',
      ''codePointAt'', ''concat'', ''endsWith'', ''fixed'', ''fontcolor'', ''fontsize'',
      ''includes'', ''indexOf'', ''isWellFormed'', ''italics'', ''lastIndexOf'', ''link'',
      ''localeCompare'', ''match'', ''matchAll'', ''normalize'', ''padEnd'', ''padStart'',
      ''repeat'', ''replace'', ''replaceAll'', ''search'', ''slice'', ''small'', ''split'',
      ''startsWith'', ''strike'', ''sub'', ''substr'', ''substring'', ''sup'',
      ''toLocaleLowerCase'', ''toLocaleUpperCase'', ''toLowerCase'', ''toUpperCase'',
      ''toWellFormed'', ''trim'', ''trimEnd'', ''trimLeft'', ''trimRight'', ''trimStart'']"

definition numberPrototypeKeys :: "string list" where
  "numberPrototypeKeys = [''toExponential'', ''toFixed'', ''toPrecision'']"

text \<open>The decimal numeral of a number, and the index a key denotes: a key is an index of
  a list or string of length \<open>n\<close> when it is the numeral of a number below \<open>n\<close>.\<close>

function showNat :: "nat \<Rightarrow> string" where
  "showNat n =
     (if n < 10 then [char_of (48 + n)] else showNat (n div 10) @ [char_of (48 + n mod 10)])"
  by pat_completeness auto
termination
  by (relation "measure (\<lambda>n. n)") auto

definition indexOfKey :: "string \<Rightarrow> nat \<Rightarrow> nat option" where
  "indexOfKey key n = find (\<lambda>i. showNat i = key) [0..<n]"

definition inheritedOr :: "string list \<Rightarrow> string \<Rightarrow> property" where
  "inheritedOr members key =
     (if key \<in> set members \<or> key \<in> set objectPrototypeKeys then Builtin else Undefined)"

fun getProperty :: "jsvalue \<Rightarrow> string \<Rightarrow> error + property" where
  "getProperty JNull key = Inl TypeError"
| "getProperty (JObject props) key =
     Inr (case props key of Some v \<Rightarrow> Value v | None \<Rightarrow> inheritedOr [] key)"
| "getProperty (JArray xs) key =
     Inr (case indexOfKey key (length xs) of
            Some i \<Rightarrow> Value (xs ! i)
          | None \<Rightarrow>
              if key = ''length'' then Value (JNumber (int (length xs)))
              else inheritedOr arrayPrototypeKeys key)"
| "getProperty (JString s) key =
     Inr (case indexOfKey key (length s) of
            Some i \<Rightarrow> Value (JString [s ! i])
          | None \<Rightarrow>
              if key = ''length'' then Value (JNumber (int (length s)))
              else inheritedOr stringPrototypeKeys key)"
| "getProperty (JNumber n) key = Inr (inheritedOr numberPrototypeKeys key)"
| "getProperty JNaN key = Inr (inheritedOr numberPrototypeKeys key)"
| "getProperty (JBool b) key = Inr (inheritedOr [] key)"

section \<open>Group mapping: src/mapping/loader.ts\<close>

text \<open>
  The interfaces \<^verbatim>\<open>GroupMappingEntry\<close>, \<^verbatim>\<open>MappingDefaults\<close> and \<^verbatim>\<open>GroupMapping\<close>
  are compile-time only; at run time a mapping is the parsed value, read field by field.
  \<^verbatim>\<open>ResolvedGroupMapping\<close> is built by \<^verbatim>\<open>resolveGroup\<close> from such reads, so each
  of its fields holds whatever value the read gave (prefix \<open>r_\<close>); the same for the
  two fields of \<^verbatim>\<open>Required<MappingDefaults>\<close> (prefix \<open>req_\<close>).
\<close>

record ResolvedGroupMapping =
  r_octeliumGroup :: jsvalue
  r_displayName :: jsvalue
  r_policies :: jsvalue
  r_sync :: jsvalue

record RequiredMappingDefaults =
  req_unmappedGroups :: jsvalue
  req_defaultPolicies :: jsvalue

record MappingLoader =
  mapping :: jsvalue
  loader_defaults :: RequiredMappingDefaults

text \<open>The constructor: \<^verbatim>\<open>mapping.defaults?.unmappedGroups ?? "skip"\<close> and
  \<^verbatim>\<open>mapping.defaults?.defaultPolicies ?? []\<close>.  It throws when \<^verbatim>\<open>mapping\<close> is
  \<^verbatim>\<open>null\<close>.\<close>

definition MappingLoader_new :: "jsvalue \<Rightarrow> error + MappingLoader" where
  "MappingLoader_new m =
     (case readField m ''defaults'' of
        Inl e \<Rightarrow> Inl e
      | Inr dflt \<Rightarrow>
          Inr \<lparr> mapping = m,
                loader_defaults =
                  \<lparr> req_unmappedGroups =
                      nullish (optionalRead dflt ''unmappedGroups'') (JString ''skip''),
                    req_defaultPolicies =
                      nullish (optionalRead dflt ''defaultPolicies'') (JArray []) \<rparr> \<rparr>)"

text \<open>
  \<^verbatim>\<open>MappingLoader.fromFile\<close>.  Reading and parsing the file are external; their outcome
  is the argument (an empty file parses to \<^verbatim>\<open>null\<close>).  \<^verbatim>\<open>!mapping.groups\<close> holds when
  the property is missing or falsy.
\<close>

definition fromFile :: "error + jsvalue \<Rightarrow> error + MappingLoader" where
  "fromFile parsed =
     (case parsed of
        Inl e \<Rightarrow> Inl e
      | Inr m \<Rightarrow>
          (case readField m ''groups'' of
             Inl e \<Rightarrow> Inl e
           | Inr grps \<Rightarrow>
               if \<not> (case grps of None \<Rightarrow> False | Some g \<Rightarrow> truthy g)
               then Inl (Error ''Invalid mapping file: missing 'groups' key'')
               else MappingLoader_new m))"

text \<open>
  The fields of the entry that \<^verbatim>\<open>resolveGroup\<close> reads, \<^verbatim>\<open>entry.octeliumGroup\<close>,
  \<^verbatim>\<open>entry.displayName\<close>, \<^verbatim>\<open>entry.policies\<close>, \<^verbatim>\<open>entry.sync\<close>: the own property
  when the entry is an object; a truthy value of another kind and a built-in member
  have none of the four.
\<close>

fun entryField :: "property \<Rightarrow> string \<Rightarrow> jsvalue option" where
  "entryField (Value (JObject props)) name = props name"
| "entryField entry name = None"

text \<open>
  \<^verbatim>\<open>resolveGroup\<close>; \<open>Inr None\<close> is the \<^verbatim>\<open>null\<close> it returns for a skipped group.
  \<^verbatim>\<open>entry.sync === false\<close> holds of the boolean \<^verbatim>\<open>false\<close> only, and the
  \<^verbatim>\<open>switch\<close> compares with \<^verbatim>\<open>===\<close>, so only the three strings select a branch.
\<close>

definition resolveGroup :: "MappingLoader \<Rightarrow> string \<Rightarrow> error + ResolvedGroupMapping option" where
  "resolveGroup this idpGroupName =
     (case readField (mapping this) ''groups'' of
        Inl e \<Rightarrow> Inl e
      | Inr None \<Rightarrow> Inl TypeError
      | Inr (Some grps) \<Rightarrow>
          (case getProperty grps idpGroupName of
             Inl e \<Rightarrow> Inl e
           | Inr entry \<Rightarrow>
               Inr (if truthyProperty entry then
                      (if entryField entry ''sync'' = Some (JBool False) then None
                       else Some
                         \<lparr> r_octeliumGroup =
                             nullish (entryField entry ''octeliumGroup'') (JString idpGroupName),
                           r_displayName =
                             nullish (entryField entry ''displayName'') (JString idpGroupName),
                           r_policies =
                             nullish (entryField entry ''policies'')
                               (req_defaultPolicies (loader_defaults this)),
                           r_sync = nullish (entryField entry ''sync'') (JBool True) \<rparr>)
                    else if req_unmappedGroups (loader_defaults this) = JString ''skip''
                      then None
                    else if req_unmappedGroups (loader_defaults this) = JString ''include''
                      then Some
                        \<lparr> r_octeliumGroup = JString idpGroupName,
                          r_displayName = JString idpGroupName,
                          r_policies = req_defaultPolicies (loader_defaults this),
                          r_sync = JBool True \<rparr>
                    else if req_unmappedGroups (loader_defaults this)
                              = JString ''include-no-policies''
                      then Some
                        \<lparr> r_octeliumGroup = JString idpGroupName,
                          r_displayName = JString idpGroupName,
                          r_policies = JArray [],
                          r_sync = JBool True \<rparr>
                    else None)))"

text \<open>\<^verbatim>\<open>getDefinedGroups\<close> is \<^verbatim>\<open>Object.keys\<close> of \<^verbatim>\<open>mapping.groups\<close>: the own
  keys, whatever their values are (as a set: their order is not modelled).\<close>

definition getDefinedGroups :: "MappingLoader \<Rightarrow> error + string set" where
  "getDefinedGroups this =
     (case readField (mapping this) ''groups'' of
        Inl e \<Rightarrow> Inl e
      | Inr None \<Rightarrow> Inl TypeError
      | Inr (Some JNull) \<Rightarrow> Inl TypeError
      | Inr (Some (JObject table)) \<Rightarrow> Inr (dom table)
      | Inr (Some (JArray xs)) \<Rightarrow> Inr (set (map showNat [0..<length xs]))
      | Inr (Some (JString str)) \<Rightarrow> Inr (set (map showNat [0..<length str]))
      | Inr (Some v) \<Rightarrow> Inr {})"

text \<open>
  \<^verbatim>\<open>shouldExcludeUser\<close>.  The matcher is a parameter, applied to the username and the
  pattern in that order; the program passes \<^verbatim>\<open>minimatch\<close>.
\<close>

fun shouldExcludeUser :: "(string \<Rightarrow> string \<Rightarrow> bool) \<Rightarrow> string \<Rightarrow> string list \<Rightarrow> bool" where
  "shouldExcludeUser matcher username [] = False"
| "shouldExcludeUser matcher username (pattern # excludePatterns) =
     (if matcher username pattern then True
      else shouldExcludeUser matcher username excludePatterns)"

section \<open>The Keycloak provider: src/providers/provider.ts, src/providers/keycloak.ts\<close>

text \<open>The field \<^verbatim>\<open>id\<close> is \<open>uid\<close> for a user and \<open>gid\<close> for a group, \<^verbatim>\<open>name\<close> and
  \<^verbatim>\<open>path\<close> of a group are \<open>gname\<close> and \<open>gpath\<close>, and \<^verbatim>\<open>groups\<close> of a user is
  \<open>user_groups\<close>; a variable \<^verbatim>\<open>group\<close> or \<^verbatim>\<open>groups\<close> of the source is
  \<open>grp\<close> or \<open>grps\<close>.\<close>

record User =
  uid :: string
  username :: string
  email :: string
  enabled :: bool
  firstName :: "string option"
  lastName :: "string option"

record Group =
  gid :: string
  gname :: string
  gpath :: "string option"

record UserWithGroups = User +
  user_groups :: "string list"

text \<open>
  The representations the Keycloak admin client returns.  The source asserts \<^verbatim>\<open>id\<close>,
  \<^verbatim>\<open>username\<close> and \<^verbatim>\<open>name\<close> present (\<^verbatim>\<open>u.id!\<close>); \<^verbatim>\<open>subGroups\<close> left out is the
  empty list, which the source treats alike.
\<close>

record UserRepresentation =
  rep_id :: string
  rep_username :: string
  rep_email :: "string option"
  rep_enabled :: "bool option"
  rep_firstName :: "string option"
  rep_lastName :: "string option"

datatype GroupRepresentation =
  GroupRepresentation (rep_gid: string) (rep_name: string) (rep_path: "string option")
    (subGroups: "GroupRepresentation list")

text \<open>
  The client: what each of its calls answers.  The server is taken to answer a call the
  same way each time it is made during one run.  A failing call throws an \<^verbatim>\<open>Error\<close>
  object; the answer is then its message (\<open>Inl\<close>, and \<open>Some\<close> for \<^verbatim>\<open>auth\<close>, which
  returns nothing).
\<close>

record KcAdminClient =
  auth :: "string option"
  users_find :: "string + UserRepresentation list"
  groups_find :: "string + GroupRepresentation list"
  groups_listMembers :: "string \<Rightarrow> string + UserRepresentation list"

record KeycloakProvider =
  client :: KcAdminClient
  connected :: bool

definition KeycloakProvider_new :: "KcAdminClient \<Rightarrow> KeycloakProvider" where
  "KeycloakProvider_new c = \<lparr> client = c, connected = False \<rparr>"

definition connect :: "KeycloakProvider \<Rightarrow> error + KeycloakProvider" where
  "connect this =
     (case auth (client this) of
        None \<Rightarrow> Inr (this\<lparr> connected := True \<rparr>)
      | Some msg \<Rightarrow> Inl (Error (''Failed to connect to Keycloak: '' @ msg)))"

text \<open>\<^verbatim>\<open>u.email || ""\<close> and \<^verbatim>\<open>u.enabled ?? true\<close>.\<close>

definition toUser :: "UserRepresentation \<Rightarrow> User" where
  "toUser u =
     \<lparr> uid = rep_id u,
       username = rep_username u,
       email = (case rep_email u of None \<Rightarrow> [] | Some e \<Rightarrow> e),
       enabled = (case rep_enabled u of None \<Rightarrow> True | Some b \<Rightarrow> b),
       firstName = rep_firstName u,
       lastName = rep_lastName u \<rparr>"

definition notConnected :: error where
  "notConnected = Error ''Not connected to Keycloak. Call connect() first.''"

definition getUsers :: "KeycloakProvider \<Rightarrow> error + User list" where
  "getUsers this =
     (if \<not> connected this then Inl notConnected
      else case users_find (client this) of
             Inl msg \<Rightarrow> Inl (Error msg)
           | Inr users \<Rightarrow> Inr (map toUser users))"

text \<open>\<^verbatim>\<open>flattenGroups\<close>: each group is pushed, then its subgroups, in preorder.\<close>

function flattenGroups :: "GroupRepresentation list \<Rightarrow> Group list \<Rightarrow> Group list" where
  "flattenGroups [] result = result"
| "flattenGroups (g # gs) result =
     flattenGroups gs
       (flattenGroups (subGroups g)
          (result @ [\<lparr> gid = rep_gid g, gname = rep_name g, gpath = rep_path g \<rparr>]))"
  by pat_completeness auto
termination
  by (relation "measure (\<lambda>(gs, result). size_list size gs)") (auto, case_tac g, simp)

definition getGroups :: "KeycloakProvider \<Rightarrow> error + Group list" where
  "getGroups this =
     (if \<not> connected this then Inl notConnected
      else case groups_find (client this) of
             Inl msg \<Rightarrow> Inl (Error msg)
           | Inr reps \<Rightarrow> Inr (flattenGroups reps []))"

text \<open>
  \<^verbatim>\<open>getUsersWithGroups\<close>.  \<^verbatim>\<open>userGroupsMap\<close> is a map from user ids to the list of
  group names collected so far; \<^verbatim>\<open>userGroups.push(group.name)\<close> on the array the map holds
  is the update of the map at that id.  A member whose id is no key of the map is passed
  over.  The \<^verbatim>\<open>try\<close>/\<^verbatim>\<open>catch\<close> around one group's member listing turns its failure
  into a line of \<^verbatim>\<open>console.warn\<close>; the warnings are returned beside the result.
  \<^verbatim>\<open>${error}\<close> renders an \<^verbatim>\<open>Error\<close> object as \<^verbatim>\<open>Error: \<close> and its message.
\<close>

fun initUserGroups :: "User list \<Rightarrow> (string \<rightharpoonup> string list) \<Rightarrow> (string \<rightharpoonup> string list)" where
  "initUserGroups [] userGroupsMap = userGroupsMap"
| "initUserGroups (user # users) userGroupsMap =
     initUserGroups users (userGroupsMap(uid user \<mapsto> []))"

fun addMembers ::
  "string \<Rightarrow> UserRepresentation list \<Rightarrow> (string \<rightharpoonup> string list) \<Rightarrow> (string \<rightharpoonup> string list)" where
  "addMembers name [] userGroupsMap = userGroupsMap"
| "addMembers name (member # members) userGroupsMap =
     addMembers name members
       (case userGroupsMap (rep_id member) of
          Some userGroups \<Rightarrow> userGroupsMap(rep_id member \<mapsto> userGroups @ [name])
        | None \<Rightarrow> userGroupsMap)"

definition memberWarning :: "Group \<Rightarrow> string \<Rightarrow> string" where
  "memberWarning grp msg =
     ''Warning: Could not get members for group '' @ gname grp @ '': Error: '' @ msg"

fun fetchMembers ::
  "(string \<Rightarrow> string + UserRepresentation list) \<Rightarrow> Group list \<Rightarrow>
   (string \<rightharpoonup> string list) \<times> string list \<Rightarrow> (string \<rightharpoonup> string list) \<times> string list" where
  "fetchMembers listMembers [] state = state"
| "fetchMembers listMembers (grp # grps) (userGroupsMap, warnings) =
     fetchMembers listMembers grps
       (case listMembers (gid grp) of
          Inr members \<Rightarrow> (addMembers (gname grp) members userGroupsMap, warnings)
        | Inl msg \<Rightarrow> (userGroupsMap, warnings @ [memberWarning grp msg]))"

definition withGroups :: "(string \<rightharpoonup> string list) \<Rightarrow> User \<Rightarrow> UserWithGroups" where
  "withGroups userGroupsMap user =
     User.extend user
       (UserWithGroups.fields
          (case userGroupsMap (uid user) of None \<Rightarrow> [] | Some userGroups \<Rightarrow> userGroups))"

definition getUsersWithGroups :: "KeycloakProvider \<Rightarrow> (error + UserWithGroups list) \<times> string list" where
  "getUsersWithGroups this =
     (if \<not> connected this then (Inl notConnected, [])
      else case getUsers this of
             Inl e \<Rightarrow> (Inl e, [])
           | Inr users \<Rightarrow>
               (case getGroups this of
                  Inl e \<Rightarrow> (Inl e, [])
                | Inr grps \<Rightarrow>
                    (case fetchMembers (groups_listMembers (client this)) grps
                            (initUserGroups users Map.empty, []) of
                       (userGroupsMap, warnings) \<Rightarrow>
                         (Inr (map (withGroups userGroupsMap) users), warnings))))"

section \<open>Manifests: src/octelium/types.ts and the generators\<close>

text \<open>\<^verbatim>\<open>OcteliumUser\<close> and \<^verbatim>\<open>OcteliumGroup\<close> of types.ts, the nesting into
  \<^verbatim>\<open>metadata\<close> and \<^verbatim>\<open>spec\<close> flattened; \<^verbatim>\<open>attrs\<close> is not modelled.  The names and
  policies of a group come from a resolved group and hold whatever value it holds.\<close>

datatype UserType = HUMAN | WORKLOAD

record OcteliumUser =
  ou_name :: string
  ou_type :: UserType
  ou_email :: "string option"
  ou_groups :: "jsvalue list option"

record OcteliumGroup =
  og_name :: jsvalue
  og_displayName :: "jsvalue option"
  og_policies :: "jsvalue option"

text \<open>
  Modelled from the spec: \<^verbatim>\<open>generateGroupsYaml\<close> and \<^verbatim>\<open>generateUsersYaml\<close>, which
  index.ts imports from the module \<^verbatim>\<open>./octelium\<close>; only that module's types.ts is among
  the sources.  After section 4.3 of the specification: for each raw group, in input
  order, the resolver is invoked; a group resolving to absent is left out of the document
  and of the returned mapping from raw names to resolved groups; a resolved group gives
  one entry carrying target name, display name and policy list.  For each user, each raw
  group name is looked up in that mapping and replaced by the target name, and a raw name
  with no entry is dropped; the type is human, the email flows through.  A document is the
  list of its entries; its serialisation to text is not modelled.  An error thrown by the
  resolver ends the generation.
\<close>

definition toOcteliumGroup :: "ResolvedGroupMapping \<Rightarrow> OcteliumGroup" where
  "toOcteliumGroup r =
     \<lparr> og_name = r_octeliumGroup r,
       og_displayName = Some (r_displayName r),
       og_policies = Some (r_policies r) \<rparr>"

fun generateGroupsLoop ::
  "MappingLoader \<Rightarrow> Group list \<Rightarrow>
   OcteliumGroup list \<times> (string \<rightharpoonup> ResolvedGroupMapping) \<Rightarrow>
   error + OcteliumGroup list \<times> (string \<rightharpoonup> ResolvedGroupMapping)" where
  "generateGroupsLoop mappingLoader [] acc = Inr acc"
| "generateGroupsLoop mappingLoader (grp # grps) (doc, resolvedGroups) =
     (case resolveGroup mappingLoader (gname grp) of
        Inl e \<Rightarrow> Inl e
      | Inr None \<Rightarrow> generateGroupsLoop mappingLoader grps (doc, resolvedGroups)
      | Inr (Some r) \<Rightarrow>
          generateGroupsLoop mappingLoader grps
            (doc @ [toOcteliumGroup r], resolvedGroups(gname grp \<mapsto> r)))"

definition generateGroupsYaml ::
  "Group list \<Rightarrow> MappingLoader \<Rightarrow>
   error + OcteliumGroup list \<times> (string \<rightharpoonup> ResolvedGroupMapping)" where
  "generateGroupsYaml grps mappingLoader =
     generateGroupsLoop mappingLoader grps ([], Map.empty)"

fun translateGroups :: "(string \<rightharpoonup> ResolvedGroupMapping) \<Rightarrow> string list \<Rightarrow> jsvalue list" where
  "translateGroups resolvedGroups [] = []"
| "translateGroups resolvedGroups (raw # raws) =
     (case resolvedGroups raw of
        None \<Rightarrow> translateGroups resolvedGroups raws
      | Some r \<Rightarrow> r_octeliumGroup r # translateGroups resolvedGroups raws)"

definition toOcteliumUser :: "(string \<rightharpoonup> ResolvedGroupMapping) \<Rightarrow> UserWithGroups \<Rightarrow> OcteliumUser" where
  "toOcteliumUser resolvedGroups user =
     \<lparr> ou_name = username user,
       ou_type = HUMAN,
       ou_email = Some (email user),
       ou_groups = Some (translateGroups resolvedGroups (user_groups user)) \<rparr>"

definition generateUsersYaml ::
  "UserWithGroups list \<Rightarrow> (string \<rightharpoonup> ResolvedGroupMapping) \<Rightarrow> OcteliumUser list" where
  "generateUsersYaml filteredUsers resolvedGroups =
     map (toOcteliumUser resolvedGroups) filteredUsers"

section \<open>The sync command: src/index.ts\<close>

text \<open>
  \<^verbatim>\<open>options.excludeUsers.split(",").map((p) => p.trim()).filter((p) => p.length > 0)\<close>.
  \<open>splitString\<close> is \<^verbatim>\<open>String.prototype.split\<close> at a one-character separator: the
  pieces between the separators, one more than there are separators, so the empty string
  gives one empty piece.
\<close>

fun splitString :: "char \<Rightarrow> string \<Rightarrow> string list" where
  "splitString sep [] = [[]]"
| "splitString sep (c # cs) =
     (if c = sep then [] # splitString sep cs
      else (case splitString sep cs of
              [] \<Rightarrow> [[c]]
            | p # ps \<Rightarrow> (c # p) # ps))"

text \<open>
  \<^verbatim>\<open>String.prototype.trim\<close> removes white space and line terminators at both ends:
  U+0009 to U+000D, U+0020, U+00A0, U+1680, U+2000 to U+200A, U+2028, U+2029, U+202F,
  U+205F, U+3000 and U+FEFF.  A string is its UTF-8 bytes, so each of these is the byte
  sequence that encodes it; in a UTF-8 string such a sequence at an end of the string
  is that character.
\<close>

definition whiteSpace :: "string list" where
  "whiteSpace =
     [[CHR 0x09], [CHR 0x0A], [CHR 0x0B], [CHR 0x0C], [CHR 0x0D], [CHR 0x20],
      [CHR 0xC2, CHR 0xA0], [CHR 0xE1, CHR 0x9A, CHR 0x80],
      [CHR 0xE2, CHR 0x80, CHR 0x80], [CHR 0xE2, CHR 0x80, CHR 0x81],
      [CHR 0xE2, CHR 0x80, CHR 0x82], [CHR 0xE2, CHR 0x80, CHR 0x83],
      [CHR 0xE2, CHR 0x80, CHR 0x84], [CHR 0xE2, CHR 0x80, CHR 0x85],
      [CHR 0xE2, CHR 0x80, CHR 0x86], [CHR 0xE2, CHR 0x80, CHR 0x87],
      [CHR 0xE2, CHR 0x80, CHR 0x88], [CHR 0xE2, CHR 0x80, CHR 0x89],
      [CHR 0xE2, CHR 0x80, CHR 0x8A], [CHR 0xE2, CHR 0x80, CHR 0xA8],
      [CHR 0xE2, CHR 0x80, CHR 0xA9], [CHR 0xE2, CHR 0x80, CHR 0xAF],
      [CHR 0xE2, CHR 0x81, CHR 0x9F], [CHR 0xE3, CHR 0x80, CHR 0x80],
      [CHR 0xEF, CHR 0xBB, CHR 0xBF]]"

text \<open>\<open>stripLeading ws s\<close> removes from the front of \<open>s\<close> the sequences of \<open>ws\<close> for
  as long as one of them starts it.\<close>

function stripLeading :: "string list \<Rightarrow> string \<Rightarrow> string" where
  "stripLeading ws s =
     (case find (\<lambda>w. w \<noteq> [] \<and> take (length w) s = w) ws of
        None \<Rightarrow> s
      | Some w \<Rightarrow> stripLeading ws (drop (length w) s))"
  by pat_completeness auto
termination
proof (relation "measure (\<lambda>(ws, s). length s)")
  show "wf (measure (\<lambda>(ws, s). length s))" by simp
next
  fix ws :: "string list" and s w :: string
  assume "find (\<lambda>w. w \<noteq> [] \<and> take (length w) s = w) ws = Some w"
  then have w: "w \<noteq> []" and t: "take (length w) s = w"
    by (auto simp: find_Some_iff)
  have "length (take (length w) s) = length w"
    by (simp only: t)
  then have "length w \<le> length s"
    by simp
  moreover have "0 < length w"
    using w by simp
  ultimately show "((ws, drop (length w) s), (ws, s)) \<in> measure (\<lambda>(ws, s). length s)"
    by (cases w) simp_all
qed

declare stripLeading.simps [simp del]

definition trim :: "string \<Rightarrow> string" where
  "trim s = rev (stripLeading (map rev whiteSpace) (rev (stripLeading whiteSpace s)))"

definition excludePatterns :: "string \<Rightarrow> string list" where
  "excludePatterns excludeUsers =
     filter (\<lambda>p. length p > 0) (map (\<lambda>p. trim p) (splitString CHR '','' excludeUsers))"

text \<open>The callback of \<^verbatim>\<open>usersWithGroups.filter\<close>, with its two early returns.\<close>

definition keepUser :: "(string \<Rightarrow> string \<Rightarrow> bool) \<Rightarrow> string list \<Rightarrow> UserWithGroups \<Rightarrow> bool" where
  "keepUser matcher patterns user =
     (if \<not> enabled user then False
      else if shouldExcludeUser matcher (username user) patterns then False
      else True)"

definition filterUsers ::
  "(string \<Rightarrow> string \<Rightarrow> bool) \<Rightarrow> string \<Rightarrow> UserWithGroups list \<Rightarrow> UserWithGroups list" where
  "filterUsers matcher excludeUsers usersWithGroups =
     filter (keepUser matcher (excludePatterns excludeUsers)) usersWithGroups"

text \<open>
  \<^verbatim>\<open>runSync\<close>.  The options are those of the command line (\<^verbatim>\<open>mapping\<close> is
  \<open>mappingPath\<close>); \<^verbatim>\<open>!options.keycloakUrl\<close> holds of a missing and of an empty value.
  The world outside is what the file system and the parser give for a path, and the
  Keycloak client.  The matcher that \<^verbatim>\<open>shouldExcludeUser\<close> calls is the parameter.  The
  result is the two documents, and whether they were written or printed; console output
  and a failing write are not modelled.
\<close>

record SyncOptions =
  provider :: string
  mappingPath :: string
  outputUsers :: string
  outputGroups :: string
  keycloakUrl :: "string option"
  keycloakRealm :: "string option"
  keycloakClientId :: "string option"
  keycloakClientSecret :: "string option"
  excludeUsers :: string
  dryRun :: bool

record World =
  files :: "string \<Rightarrow> error + jsvalue"
  keycloak :: KcAdminClient

record SyncOutput =
  groupsYaml :: "OcteliumGroup list"
  usersYaml :: "OcteliumUser list"
  written :: bool

definition falsy :: "string option \<Rightarrow> bool" where
  "falsy v = (case v of None \<Rightarrow> True | Some s \<Rightarrow> s = [])"

definition runSync :: "(string \<Rightarrow> string \<Rightarrow> bool) \<Rightarrow> World \<Rightarrow> SyncOptions \<Rightarrow> error + SyncOutput" where
  "runSync matcher world options =
     (if provider options \<noteq> ''keycloak''
        then Inl (Error (''Unsupported provider: '' @ provider options
                          @ ''. Supported: keycloak''))
      else if falsy (keycloakUrl options) then Inl (Error ''--keycloak-url is required'')
      else if falsy (keycloakRealm options) then Inl (Error ''--keycloak-realm is required'')
      else if falsy (keycloakClientId options)
        then Inl (Error ''--keycloak-client-id is required'')
      else if falsy (keycloakClientSecret options)
        then Inl (Error
          ''--keycloak-client-secret is required (or set KEYCLOAK_CLIENT_SECRET env)'')
      else case fromFile (files world (mappingPath options)) of
        Inl e \<Rightarrow> Inl e
      | Inr mappingLoader \<Rightarrow>
          (case connect (KeycloakProvider_new (keycloak world)) of
             Inl e \<Rightarrow> Inl e
           | Inr kc \<Rightarrow>
               (case getGroups kc of
                  Inl e \<Rightarrow> Inl e
                | Inr grps \<Rightarrow>
                    (case fst (getUsersWithGroups kc) of
                       Inl e \<Rightarrow> Inl e
                     | Inr usersWithGroups \<Rightarrow>
                         (case generateGroupsYaml grps mappingLoader of
                            Inl e \<Rightarrow> Inl e
                          | Inr (doc, resolvedGroups) \<Rightarrow>
                              Inr \<lparr> groupsYaml = doc,
                                    usersYaml =
                                      generateUsersYaml
                                        (filterUsers matcher (excludeUsers options)
                                           usersWithGroups)
                                        resolvedGroups,
                                    written = (\<not> dryRun options) \<rparr>)))))"

section \<open>Glob matching\<close>

text \<open>
  Modelled from the spec: shell-glob matching as section 4.2 of the specification names
  it (\<^verbatim>\<open>*\<close>, \<^verbatim>\<open>?\<close>, character classes, as in POSIX glob).  \<^verbatim>\<open>*\<close> matches any
  sequence of characters, \<^verbatim>\<open>?\<close> any one character, a bracket expression any one
  character of its set (single characters and ranges; a leading \<^verbatim>\<open>!\<close> complements the
  set; the first character of the set is a member even when it is \<^verbatim>\<open>]\<close>; a \<^verbatim>\<open>[\<close>
  that is never closed stands for itself); every other character matches itself.
\<close>

fun untilClose :: "string \<Rightarrow> (string \<times> string) option" where
  "untilClose [] = None"
| "untilClose (c # cs) =
     (if c = CHR '']'' then Some ([], cs)
      else (case untilClose cs of
              None \<Rightarrow> None
            | Some (body, rest) \<Rightarrow> Some (c # body, rest)))"

definition bracket :: "string \<Rightarrow> (bool \<times> string \<times> string) option" where
  "bracket ps =
     (case (if ps \<noteq> [] \<and> hd ps = CHR ''!'' then (True, tl ps) else (False, ps)) of
        (complement, t) \<Rightarrow>
          (case t of
             [] \<Rightarrow> None
           | c # cs \<Rightarrow>
               (case untilClose cs of
                  None \<Rightarrow> None
                | Some (body, rest) \<Rightarrow> Some (complement, c # body, rest))))"

fun inSet :: "char \<Rightarrow> string \<Rightarrow> bool" where
  "inSet c [] = False"
| "inSet c [a] = (c = a)"
| "inSet c [a, b] = (c = a \<or> c = b)"
| "inSet c (a # d # b # r) =
     (if d = CHR ''-''
      then ((of_char a :: nat) \<le> of_char c \<and> (of_char c :: nat) \<le> of_char b) \<or> inSet c r
      else c = a \<or> inSet c (d # b # r))"

function fnmatch :: "string \<Rightarrow> string \<Rightarrow> bool" where
  "fnmatch [] name = (name = [])"
| "fnmatch (p # ps) name =
     (if p = CHR ''*''
      then fnmatch ps name \<or> (case name of [] \<Rightarrow> False | c # cs \<Rightarrow> fnmatch (p # ps) cs)
      else (case name of
              [] \<Rightarrow> False
            | c # cs \<Rightarrow>
                if p = CHR ''?'' then fnmatch ps cs
                else if p = CHR ''[''
                  then (case bracket ps of
                          Some (complement, body, rest) \<Rightarrow>
                            (inSet c body \<noteq> complement) \<and> fnmatch rest cs
                        | None \<Rightarrow> c = p \<and> fnmatch ps cs)
                else c = p \<and> fnmatch ps cs))"
  by pat_completeness auto
termination
proof -
  have close: "untilClose s = Some (body, rest) \<Longrightarrow> length rest < length s"
    for s body rest
    by (induction s arbitrary: body rest) (auto split: if_splits option.splits)
  have shorter: "bracket ps = Some (complement, body, rest) \<Longrightarrow> length rest < length ps"
    for ps complement body rest
    by (cases ps)
       (auto simp: bracket_def split: if_splits list.splits option.splits dest!: close)
  show ?thesis
    by (relation "measure (\<lambda>(pattern, name). length pattern + length name)")
       (auto dest: shorter)
qed

definition posixGlob :: "string \<Rightarrow> string \<Rightarrow> bool" where
  "posixGlob name pattern = fnmatch pattern name"

text \<open>
  \<^verbatim>\<open>minimatch(name, pattern)\<close> is a function of the external library of that name,
  called with its default options.  What is modelled is what the library does with the
  pattern before it matches: a pattern that starts with \<^verbatim>\<open>#\<close> is a comment and matches
  nothing; the empty pattern matches the empty name only; leading \<^verbatim>\<open>!\<close> characters are
  taken off, and an odd number of them negates the result.  How the rest of the pattern
  is matched against the name is the parameter \<open>glob\<close>.
\<close>

definition minimatch :: "(string \<Rightarrow> string \<Rightarrow> bool) \<Rightarrow> string \<Rightarrow> string \<Rightarrow> bool" where
  "minimatch glob name pattern =
     (if pattern \<noteq> [] \<and> hd pattern = CHR ''#'' then False
      else if pattern = [] then name = []
      else if even (length (takeWhile (\<lambda>c. c = CHR ''!'') pattern))
        then glob name (dropWhile (\<lambda>c. c = CHR ''!'') pattern)
      else \<not> glob name (dropWhile (\<lambda>c. c = CHR ''!'') pattern))"

section \<open>Auxiliary definitions and example data\<close>

text \<open>\<^verbatim>\<open>Array.prototype.join\<close> at a one-character separator, to say what
  \<open>splitString\<close> computes.\<close>

fun joinStrings :: "char \<Rightarrow> string list \<Rightarrow> string" where
  "joinStrings sep [] = []"
| "joinStrings sep [p] = p"
| "joinStrings sep (p # q # ps) = p @ sep # joinStrings sep (q # ps)"

text \<open>The scenario of section 8 of the specification: one mapped group, unmapped groups
  skipped; the raw groups \<^verbatim>\<open>admins\<close> and \<^verbatim>\<open>guests\<close>; \<^verbatim>\<open>alice\<close> enabled and in both,
  \<^verbatim>\<open>bob\<close> disabled, and a service account.  \<open>scenarioLoader\<close> is the loader the
  constructor builds for the mapping.\<close>

definition scenarioTable :: "string \<rightharpoonup> jsvalue" where
  "scenarioTable =
     [''admins'' \<mapsto> JObject [''octeliumGroup'' \<mapsto> JString ''administrators'',
                               ''policies'' \<mapsto> JArray [JString ''admin-policy'']]]"

definition scenarioMapping :: jsvalue where
  "scenarioMapping =
     JObject [''groups'' \<mapsto> JObject scenarioTable,
              ''defaults'' \<mapsto> JObject [''unmappedGroups'' \<mapsto> JString ''skip'']]"

definition scenarioLoader :: MappingLoader where
  "scenarioLoader =
     \<lparr> mapping = scenarioMapping,
       loader_defaults =
         \<lparr> req_unmappedGroups = JString ''skip'', req_defaultPolicies = JArray [] \<rparr> \<rparr>"

definition scenarioGroups :: "Group list" where
  "scenarioGroups =
     [\<lparr> gid = ''g1'', gname = ''admins'', gpath = None \<rparr>,
      \<lparr> gid = ''g2'', gname = ''guests'', gpath = None \<rparr>]"

definition alice :: UserWithGroups where
  "alice =
     \<lparr> uid = ''u1'', username = ''alice'', email = ''alice@example.org'', enabled = True,
       firstName = None, lastName = None, user_groups = [''admins'', ''guests''] \<rparr>"

definition bob :: UserWithGroups where
  "bob =
     \<lparr> uid = ''u2'', username = ''bob'', email = ''bob@example.org'', enabled = False,
       firstName = None, lastName = None, user_groups = [''admins''] \<rparr>"

definition svcBatch :: UserWithGroups where
  "svcBatch =
     \<lparr> uid = ''u3'', username = ''svc-batch'', email = [], enabled = True,
       firstName = None, lastName = None, user_groups = [] \<rparr>"

text \<open>Mappings as a configuration file can give them: an empty table; a key with no
  value (\<^verbatim>\<open>dev:\<close> parses to \<^verbatim>\<open>null\<close>); a sync flag that is the string \<^verbatim>\<open>no\<close>; an
  empty target name; and \<^verbatim>\<open>groups: 5\<close>.  Each loader is the one the constructor
  builds.\<close>

definition skipLoader :: "jsvalue \<Rightarrow> MappingLoader" where
  "skipLoader m =
     \<lparr> mapping = m,
       loader_defaults =
         \<lparr> req_unmappedGroups = JString ''skip'', req_defaultPolicies = JArray [] \<rparr> \<rparr>"

definition emptyTableMapping :: jsvalue where
  "emptyTableMapping =
     JObject [''groups'' \<mapsto> JObject Map.empty,
              ''defaults'' \<mapsto> JObject [''unmappedGroups'' \<mapsto> JString ''skip'']]"

definition nullEntryMapping :: jsvalue where
  "nullEntryMapping =
     JObject [''groups'' \<mapsto> JObject [''dev'' \<mapsto> JNull],
              ''defaults'' \<mapsto> JObject [''unmappedGroups'' \<mapsto> JString ''skip'']]"

definition syncNoMapping :: jsvalue where
  "syncNoMapping =
     JObject [''groups'' \<mapsto> JObject [''dev'' \<mapsto> JObject [''sync'' \<mapsto> JString ''no'']]]"

definition emptyTargetMapping :: jsvalue where
  "emptyTargetMapping =
     JObject [''groups'' \<mapsto>
       JObject [''admins'' \<mapsto> JObject [''octeliumGroup'' \<mapsto> JString []]]]"

definition numberGroupsMapping :: jsvalue where
  "numberGroupsMapping = JObject [''groups'' \<mapsto> JNumber 5]"

text \<open>A Keycloak whose member listing fails for the group \<^verbatim>\<open>g1\<close>; \<^verbatim>\<open>alice\<close> is a
  member of \<^verbatim>\<open>g2\<close>.\<close>

definition aliceRep :: UserRepresentation where
  "aliceRep =
     \<lparr> rep_id = ''u1'', rep_username = ''alice'', rep_email = Some ''alice@example.org'',
       rep_enabled = None, rep_firstName = None, rep_lastName = None \<rparr>"

definition bobRep :: UserRepresentation where
  "bobRep =
     \<lparr> rep_id = ''u2'', rep_username = ''bob'', rep_email = None,
       rep_enabled = Some False, rep_firstName = None, rep_lastName = None \<rparr>"

definition flakyKeycloak :: KeycloakProvider where
  "flakyKeycloak =
     \<lparr> client =
         \<lparr> auth = None,
           users_find = Inr [aliceRep, bobRep],
           groups_find = Inr
             [GroupRepresentation ''g1'' ''admins'' None
                [GroupRepresentation ''g2'' ''guests'' None []]],
           groups_listMembers =
             (\<lambda>id. if id = ''g1'' then Inl ''timeout''
                   else if id = ''g2'' then Inr [aliceRep] else Inr []) \<rparr>,
       connected = True \<rparr>"

text \<open>Options that pass the checks of \<^verbatim>\<open>runSync\<close>, and a world whose mapping file
  parses to a document without \<^verbatim>\<open>groups\<close>.\<close>

definition exampleOptions :: SyncOptions where
  "exampleOptions =
     \<lparr> provider = ''keycloak'', mappingPath = ''group-mapping.yaml'',
       outputUsers = ''users.yaml'', outputGroups = ''groups.yaml'',
       keycloakUrl = Some ''https://kc.example.org'', keycloakRealm = Some ''main'',
       keycloakClientId = Some ''sync'', keycloakClientSecret = Some ''s3cret'',
       excludeUsers = ''svc-*'', dryRun = True \<rparr>"

definition noGroupsWorld :: World where
  "noGroupsWorld =
     \<lparr> files = (\<lambda>path. Inr (JObject [''defaults'' \<mapsto> JObject Map.empty])),
       keycloak = client flakyKeycloak \<rparr>"

section \<open>Properties of the group mapping\<close>

lemma MappingLoader_new_fields:
  assumes "MappingLoader_new m = Inr this"
  shows "mapping this = m"
    and "\<exists>dflt. readField m ''defaults'' = Inr dflt
          \<and> req_unmappedGroups (loader_defaults this) =
              nullish (optionalRead dflt ''unmappedGroups'') (JString ''skip'')
          \<and> req_defaultPolicies (loader_defaults this) =
              nullish (optionalRead dflt ''defaultPolicies'') (JArray [])"
  using assms by (auto simp: MappingLoader_new_def split: sum.splits)

lemma resolveGroup_truthy_entry:
  assumes "readField (mapping this) ''groups'' = Inr (Some (JObject table))"
    and "table G = Some e" and "truthy e"
  shows "resolveGroup this G =
           Inr (if entryField (Value e) ''sync'' = Some (JBool False) then None
                else Some
                  \<lparr> r_octeliumGroup = nullish (entryField (Value e) ''octeliumGroup'') (JString G),
                    r_displayName = nullish (entryField (Value e) ''displayName'') (JString G),
                    r_policies = nullish (entryField (Value e) ''policies'')
                                   (req_defaultPolicies (loader_defaults this)),
                    r_sync = nullish (entryField (Value e) ''sync'') (JBool True) \<rparr>)"
  using assms by (simp add: resolveGroup_def inheritedOr_def)

lemma scenarioLoader_built: "MappingLoader_new scenarioMapping = Inr scenarioLoader"
  by (simp add: MappingLoader_new_def scenarioMapping_def scenarioLoader_def)

lemma skipLoader_built:
  "MappingLoader_new emptyTableMapping = Inr (skipLoader emptyTableMapping)"
  "MappingLoader_new nullEntryMapping = Inr (skipLoader nullEntryMapping)"
  "MappingLoader_new syncNoMapping = Inr (skipLoader syncNoMapping)"
  "MappingLoader_new emptyTargetMapping = Inr (skipLoader emptyTargetMapping)"
  "MappingLoader_new numberGroupsMapping = Inr (skipLoader numberGroupsMapping)"
  by (simp_all add: MappingLoader_new_def skipLoader_def emptyTableMapping_def
      nullEntryMapping_def syncNoMapping_def emptyTargetMapping_def numberGroupsMapping_def)

lemma resolveGroup_no_truthy_entry:
  assumes "readField (mapping this) ''groups'' = Inr (Some (JObject table))"
    and "case table G of None \<Rightarrow> G \<notin> set objectPrototypeKeys | Some e \<Rightarrow> \<not> truthy e"
  shows "resolveGroup this G =
           Inr (if req_unmappedGroups (loader_defaults this) = JString ''include'' then
                  Some \<lparr> r_octeliumGroup = JString G, r_displayName = JString G,
                         r_policies = req_defaultPolicies (loader_defaults this),
                         r_sync = JBool True \<rparr>
                else if req_unmappedGroups (loader_defaults this) = JString ''include-no-policies''
                  then Some \<lparr> r_octeliumGroup = JString G, r_displayName = JString G,
                              r_policies = JArray [], r_sync = JBool True \<rparr>
                else None)"
  using assms
  by (cases "table G") (auto simp: resolveGroup_def inheritedOr_def)

text \<open>
  C1, as stated, fails twice.  The table of \<open>nullEntryMapping\<close> has the key \<^verbatim>\<open>dev\<close>,
  with no sync flag at all, and \<^verbatim>\<open>resolveGroup\<close> returns absent: the value under the
  key is \<^verbatim>\<open>null\<close>, which \<^verbatim>\<open>if (entry)\<close> takes for no entry.  And the entry of
  \<open>syncNoMapping\<close> has a sync flag that is not \<^verbatim>\<open>false\<close>, the string \<^verbatim>\<open>no\<close>, and the
  resolved sync flag is that string, not \<^verbatim>\<open>true\<close>.
\<close>

theorem resolveGroup_mapped_fails:
  "MappingLoader_new nullEntryMapping = Inr (skipLoader nullEntryMapping)
   \<and> getDefinedGroups (skipLoader nullEntryMapping) = Inr {''dev''}
   \<and> resolveGroup (skipLoader nullEntryMapping) ''dev'' = Inr None
   \<and> MappingLoader_new syncNoMapping = Inr (skipLoader syncNoMapping)
   \<and> resolveGroup (skipLoader syncNoMapping) ''dev'' =
       Inr (Some \<lparr> r_octeliumGroup = JString ''dev'', r_displayName = JString ''dev'',
                    r_policies = JArray [], r_sync = JString ''no'' \<rparr>)"
  by (simp add: skipLoader_built)
     (simp add: skipLoader_def nullEntryMapping_def syncNoMapping_def getDefinedGroups_def
        resolveGroup_def inheritedOr_def)

text \<open>
  C1, amended.  A raw group name whose value in the mapping table is truthy (an entry
  object) and whose sync flag is not the boolean \<^verbatim>\<open>false\<close> resolves to the entry's
  target name if given (neither missing nor \<^verbatim>\<open>null\<close>) or else the raw name, the
  entry's display name if given or else the raw name, the entry's policies if given or
  else the configured default policies, and the entry's sync flag if given or else
  \<^verbatim>\<open>true\<close>; so the resolved sync flag is \<^verbatim>\<open>true\<close> when the entry's is \<^verbatim>\<open>true\<close>,
  \<^verbatim>\<open>null\<close> or missing.
\<close>

theorem resolveGroup_mapped:
  assumes "MappingLoader_new m = Inr this"
    and "readField m ''groups'' = Inr (Some (JObject table))"
    and "readField m ''defaults'' = Inr dflt"
    and "table G = Some e" and "truthy e"
    and "entryField (Value e) ''sync'' \<noteq> Some (JBool False)"
  shows "resolveGroup this G = Inr (Some
           \<lparr> r_octeliumGroup = nullish (entryField (Value e) ''octeliumGroup'') (JString G),
             r_displayName = nullish (entryField (Value e) ''displayName'') (JString G),
             r_policies =
               nullish (entryField (Value e) ''policies'')
                 (nullish (optionalRead dflt ''defaultPolicies'') (JArray [])),
             r_sync = nullish (entryField (Value e) ''sync'') (JBool True) \<rparr>)
         \<and> (entryField (Value e) ''sync'' = None \<or> entryField (Value e) ''sync'' = Some JNull
              \<or> entryField (Value e) ''sync'' = Some (JBool True)
            \<longrightarrow> nullish (entryField (Value e) ''sync'') (JBool True) = JBool True)"
proof -
  have m: "mapping this = m"
    using assms(1) by (rule MappingLoader_new_fields(1))
  have d: "req_defaultPolicies (loader_defaults this) =
             nullish (optionalRead dflt ''defaultPolicies'') (JArray [])"
    using MappingLoader_new_fields(2) [OF assms(1)] assms(3) by auto
  have "resolveGroup this G = Inr (Some
           \<lparr> r_octeliumGroup = nullish (entryField (Value e) ''octeliumGroup'') (JString G),
             r_displayName = nullish (entryField (Value e) ''displayName'') (JString G),
             r_policies =
               nullish (entryField (Value e) ''policies'')
                 (nullish (optionalRead dflt ''defaultPolicies'') (JArray [])),
             r_sync = nullish (entryField (Value e) ''sync'') (JBool True) \<rparr>)"
    using resolveGroup_truthy_entry [of this table G e] assms(2,4,5,6)
    by (simp add: m d)
  then show ?thesis by auto
qed

theorem resolveGroup_mapped_witness:
  "MappingLoader_new scenarioMapping = Inr scenarioLoader
   \<and> readField scenarioMapping ''groups'' = Inr (Some (JObject scenarioTable))
   \<and> readField scenarioMapping ''defaults''
       = Inr (Some (JObject [''unmappedGroups'' \<mapsto> JString ''skip'']))
   \<and> scenarioTable ''admins''
       = Some (JObject [''octeliumGroup'' \<mapsto> JString ''administrators'',
                        ''policies'' \<mapsto> JArray [JString ''admin-policy'']])
   \<and> truthy (JObject [''octeliumGroup'' \<mapsto> JString ''administrators'',
                        ''policies'' \<mapsto> JArray [JString ''admin-policy'']])
   \<and> entryField (Value (JObject [''octeliumGroup'' \<mapsto> JString ''administrators'',
                        ''policies'' \<mapsto> JArray [JString ''admin-policy'']])) ''sync'' = None
   \<and> resolveGroup scenarioLoader ''admins''
       = Inr (Some \<lparr> r_octeliumGroup = JString ''administrators'',
                      r_displayName = JString ''admins'',
                      r_policies = JArray [JString ''admin-policy''],
                      r_sync = JBool True \<rparr>)"
proof -
  have g: "readField scenarioMapping ''groups'' = Inr (Some (JObject scenarioTable))"
    and d: "readField scenarioMapping ''defaults''
       = Inr (Some (JObject [''unmappedGroups'' \<mapsto> JString ''skip'']))"
    by (simp_all add: scenarioMapping_def)
  have e: "scenarioTable ''admins''
       = Some (JObject [''octeliumGroup'' \<mapsto> JString ''administrators'',
                        ''policies'' \<mapsto> JArray [JString ''admin-policy'']])"
    by (simp add: scenarioTable_def)
  show ?thesis
    using resolveGroup_mapped [OF scenarioLoader_built g d e] scenarioLoader_built g d e
    by simp
qed

text \<open>
  C2.  The claim fails at a raw group name that is a key of \<^verbatim>\<open>Object.prototype\<close>: the
  table has no entry for \<^verbatim>\<open>constructor\<close> and the policy is \<^verbatim>\<open>skip\<close>, yet the property
  read yields the inherited member, the branch for a mapped group is taken, and the group
  is resolved under its raw name with the default policies.
\<close>

theorem resolveGroup_unmapped_inherited_key:
  "MappingLoader_new emptyTableMapping = Inr (skipLoader emptyTableMapping)
   \<and> readField emptyTableMapping ''groups'' = Inr (Some (JObject Map.empty))
   \<and> getDefinedGroups (skipLoader emptyTableMapping) = Inr {}
   \<and> resolveGroup (skipLoader emptyTableMapping) ''constructor''
     = Inr (Some \<lparr> r_octeliumGroup = JString ''constructor'',
                    r_displayName = JString ''constructor'',
                    r_policies = JArray [], r_sync = JBool True \<rparr>)"
  by (simp add: skipLoader_built)
     (simp add: skipLoader_def emptyTableMapping_def getDefinedGroups_def
        resolveGroup_def inheritedOr_def objectPrototypeKeys_def)

text \<open>
  C3.  A raw group name whose entry sets sync to false explicitly resolves to absent,
  whatever the entry's other fields and whatever the loader's defaults are.
\<close>

theorem resolveGroup_sync_false:
  assumes "readField (mapping this) ''groups'' = Inr (Some (JObject table))"
    and "table G = Some e" and "entryField (Value e) ''sync'' = Some (JBool False)"
  shows "resolveGroup this G = Inr None"
proof -
  have "truthy e"
    using assms(3) by (cases e) simp_all
  from resolveGroup_truthy_entry [OF assms(1,2) this] show ?thesis
    using assms(3) by simp
qed

theorem resolveGroup_sync_false_witness:
  "readField (mapping \<lparr> mapping = JObject [''groups'' \<mapsto> JObject [''guests'' \<mapsto>
         JObject [''octeliumGroup'' \<mapsto> JString ''visitors'',
                  ''displayName'' \<mapsto> JString ''Guests'',
                  ''policies'' \<mapsto> JArray [JString ''guest-policy''],
                  ''sync'' \<mapsto> JBool False]]],
       loader_defaults = \<lparr> req_unmappedGroups = JString ''include'',
                           req_defaultPolicies = JArray [JString ''base''] \<rparr> \<rparr>) ''groups''
     = Inr (Some (JObject [''guests'' \<mapsto>
         JObject [''octeliumGroup'' \<mapsto> JString ''visitors'',
                  ''displayName'' \<mapsto> JString ''Guests'',
                  ''policies'' \<mapsto> JArray [JString ''guest-policy''],
                  ''sync'' \<mapsto> JBool False]]))
   \<and> entryField (Value (JObject [''octeliumGroup'' \<mapsto> JString ''visitors'',
                  ''displayName'' \<mapsto> JString ''Guests'',
                  ''policies'' \<mapsto> JArray [JString ''guest-policy''],
                  ''sync'' \<mapsto> JBool False])) ''sync'' = Some (JBool False)
   \<and> resolveGroup \<lparr> mapping = JObject [''groups'' \<mapsto> JObject [''guests'' \<mapsto>
         JObject [''octeliumGroup'' \<mapsto> JString ''visitors'',
                  ''displayName'' \<mapsto> JString ''Guests'',
                  ''policies'' \<mapsto> JArray [JString ''guest-policy''],
                  ''sync'' \<mapsto> JBool False]]],
       loader_defaults = \<lparr> req_unmappedGroups = JString ''include'',
                           req_defaultPolicies = JArray [JString ''base''] \<rparr> \<rparr> ''guests''
     = Inr None"
  using resolveGroup_sync_false
    [of "\<lparr> mapping = JObject [''groups'' \<mapsto> JObject [''guests'' \<mapsto>
         JObject [''octeliumGroup'' \<mapsto> JString ''visitors'',
                  ''displayName'' \<mapsto> JString ''Guests'',
                  ''policies'' \<mapsto> JArray [JString ''guest-policy''],
                  ''sync'' \<mapsto> JBool False]]],
       loader_defaults = \<lparr> req_unmappedGroups = JString ''include'',
                           req_defaultPolicies = JArray [JString ''base''] \<rparr> \<rparr>"
       "[''guests'' \<mapsto>
         JObject [''octeliumGroup'' \<mapsto> JString ''visitors'',
                  ''displayName'' \<mapsto> JString ''Guests'',
                  ''policies'' \<mapsto> JArray [JString ''guest-policy''],
                  ''sync'' \<mapsto> JBool False]]"
       "''guests''"
       "JObject [''octeliumGroup'' \<mapsto> JString ''visitors'',
                  ''displayName'' \<mapsto> JString ''Guests'',
                  ''policies'' \<mapsto> JArray [JString ''guest-policy''],
                  ''sync'' \<mapsto> JBool False]"]
  by simp

lemma resolveGroup_target_value:
  assumes "readField (mapping this) ''groups'' = Inr (Some (JObject table))"
    and "resolveGroup this G = Inr (Some r)"
  shows "r_octeliumGroup r =
           (case table G of
              None \<Rightarrow> JString G
            | Some e \<Rightarrow> nullish (entryField (Value e) ''octeliumGroup'') (JString G))"
proof (cases "table G")
  case None
  then show ?thesis
    using assms
    by (auto simp: resolveGroup_def inheritedOr_def split: if_splits)
next
  case (Some e)
  show ?thesis
  proof (cases "truthy e")
    case True
    from resolveGroup_truthy_entry [OF assms(1) Some True] assms(2) Some
    show ?thesis by (auto split: if_splits)
  next
    case False
    then have none: "entryField (Value e) ''octeliumGroup'' = None"
      by (cases e) simp_all
    from False Some have "case table G of None \<Rightarrow> G \<notin> set objectPrototypeKeys
                          | Some e \<Rightarrow> \<not> truthy e"
      by simp
    from resolveGroup_no_truthy_entry [OF assms(1) this] assms(2) Some none
    show ?thesis by (auto split: if_splits)
  qed
qed

text \<open>
  C5, as stated, fails: an entry may give the empty string as target name, and
  \<^verbatim>\<open>??\<close> replaces only a missing value, so the resolved target name is empty.
\<close>

theorem resolveGroup_empty_target:
  "MappingLoader_new emptyTargetMapping = Inr (skipLoader emptyTargetMapping)
   \<and> resolveGroup (skipLoader emptyTargetMapping) ''admins''
     = Inr (Some \<lparr> r_octeliumGroup = JString [], r_displayName = JString ''admins'',
                    r_policies = JArray [], r_sync = JBool True \<rparr>)"
  by (simp add: skipLoader_built)
     (simp add: skipLoader_def emptyTargetMapping_def resolveGroup_def inheritedOr_def)

text \<open>
  C5, amended.  Whenever a raw group name resolves, the target name is the one the entry
  specifies, and the raw name when there is no entry or the entry specifies none; so it
  is non-empty provided the raw name is non-empty and the entry does not specify the empty
  string; and it is a non-empty string when moreover what the entry specifies, if
  anything, is a string.
\<close>

theorem resolveGroup_target:
  assumes "readField (mapping this) ''groups'' = Inr (Some (JObject table))"
    and "resolveGroup this G = Inr (Some r)"
  shows "r_octeliumGroup r =
           (case table G of
              None \<Rightarrow> JString G
            | Some e \<Rightarrow>
                (case entryField (Value e) ''octeliumGroup'' of
                   None \<Rightarrow> JString G
                 | Some JNull \<Rightarrow> JString G
                 | Some t \<Rightarrow> t))
         \<and> (G \<noteq> [] \<and> (case table G of
                          None \<Rightarrow> True
                        | Some e \<Rightarrow> entryField (Value e) ''octeliumGroup'' \<noteq> Some (JString []))
              \<longrightarrow> r_octeliumGroup r \<noteq> JString [])
         \<and> (G \<noteq> [] \<and> (case table G of
                          None \<Rightarrow> True
                        | Some e \<Rightarrow>
                            (case entryField (Value e) ''octeliumGroup'' of
                               None \<Rightarrow> True
                             | Some JNull \<Rightarrow> True
                             | Some (JString t) \<Rightarrow> t \<noteq> []
                             | Some other \<Rightarrow> False))
              \<longrightarrow> (\<exists>t. r_octeliumGroup r = JString t \<and> t \<noteq> []))"
proof -
  have n: "nullish v d = (case v of None \<Rightarrow> d | Some JNull \<Rightarrow> d | Some t \<Rightarrow> t)" for v d
    by (cases "(v, d)" rule: nullish.cases) simp_all
  show ?thesis
    unfolding resolveGroup_target_value [OF assms] n
    by (auto split: option.splits jsvalue.splits)
qed

theorem resolveGroup_target_witness:
  "readField (mapping scenarioLoader) ''groups'' = Inr (Some (JObject scenarioTable))
   \<and> resolveGroup scenarioLoader ''admins''
     = Inr (Some \<lparr> r_octeliumGroup = JString ''administrators'',
                    r_displayName = JString ''admins'',
                    r_policies = JArray [JString ''admin-policy''], r_sync = JBool True \<rparr>)
   \<and> ''admins'' \<noteq> []
   \<and> scenarioTable ''admins''
       = Some (JObject [''octeliumGroup'' \<mapsto> JString ''administrators'',
                        ''policies'' \<mapsto> JArray [JString ''admin-policy'']])
   \<and> (\<exists>t. r_octeliumGroup \<lparr> r_octeliumGroup = JString ''administrators'',
                    r_displayName = JString ''admins'',
                    r_policies = JArray [JString ''admin-policy''], r_sync = JBool True \<rparr>
             = JString t \<and> t \<noteq> [])"
proof -
  have g: "readField (mapping scenarioLoader) ''groups'' = Inr (Some (JObject scenarioTable))"
    by (simp add: scenarioLoader_def scenarioMapping_def)
  have res: "resolveGroup scenarioLoader ''admins''
     = Inr (Some \<lparr> r_octeliumGroup = JString ''administrators'',
                    r_displayName = JString ''admins'',
                    r_policies = JArray [JString ''admin-policy''], r_sync = JBool True \<rparr>)"
    by (simp add: resolveGroup_def inheritedOr_def scenarioLoader_def scenarioMapping_def
        scenarioTable_def)
  show ?thesis
    using resolveGroup_target [OF g res] g res by (simp add: scenarioTable_def)
qed



section \<open>Properties of the exclusion filter\<close>

lemma shouldExcludeUser_exists:
  "shouldExcludeUser matcher u P \<longleftrightarrow> (\<exists>p \<in> set P. matcher u p)"
  by (induction P) auto

text \<open>
  C6, as stated, fails: \<^verbatim>\<open>alice\<close> is excluded by the pattern list \<^verbatim>\<open>["!admin"]\<close>,
  although the pattern does not match \<^verbatim>\<open>alice\<close> as a shell glob (it matches only the
  name \<^verbatim>\<open>!admin\<close>): the library takes the leading \<^verbatim>\<open>!\<close> for a negation.  This holds
  even when the rest of the pattern is matched exactly as a POSIX glob.
\<close>

theorem shouldExcludeUser_negated_pattern:
  "shouldExcludeUser (minimatch posixGlob) ''alice'' [''!admin'']
   \<and> \<not> posixGlob ''alice'' ''!admin''
   \<and> \<not> posixGlob ''alice'' ''admin''"
  by (simp add: minimatch_def posixGlob_def)

text \<open>
  C6, amended.  With no pattern no username is excluded, and a username is excluded
  exactly when the matcher accepts it for at least one pattern of the list; this holds
  for every matcher, so for \<^verbatim>\<open>minimatch\<close>.  What \<^verbatim>\<open>minimatch\<close> accepts is not the
  shell-glob match of the pattern: a pattern that starts with \<^verbatim>\<open>#\<close> accepts nothing, and
  a pattern \<^verbatim>\<open>!p\<close> accepts exactly the names that \<^verbatim>\<open>p\<close> does not accept (for \<^verbatim>\<open>p\<close>
  not empty and not starting with \<^verbatim>\<open>!\<close> or \<^verbatim>\<open>#\<close>, which is accepted as the library
  matches globs).
\<close>

theorem shouldExcludeUser_minimatch:
  "\<not> shouldExcludeUser matcher u []
   \<and> (shouldExcludeUser matcher u P \<longleftrightarrow> (\<exists>p \<in> set P. matcher u p))
   \<and> (shouldExcludeUser (minimatch glob) u P \<longleftrightarrow> (\<exists>p \<in> set P. minimatch glob u p))
   \<and> \<not> minimatch glob u (CHR ''#'' # q)
   \<and> (q \<noteq> [] \<and> hd q \<noteq> CHR ''!'' \<and> hd q \<noteq> CHR ''#'' \<longrightarrow>
        (minimatch glob u q \<longleftrightarrow> glob u q)
        \<and> (minimatch glob u (CHR ''!'' # q) \<longleftrightarrow> \<not> glob u q))"
proof (intro conjI impI)
  show "\<not> shouldExcludeUser matcher u []" by simp
  show "shouldExcludeUser matcher u P \<longleftrightarrow> (\<exists>p \<in> set P. matcher u p)"
    by (rule shouldExcludeUser_exists)
  show "shouldExcludeUser (minimatch glob) u P \<longleftrightarrow> (\<exists>p \<in> set P. minimatch glob u p)"
    by (rule shouldExcludeUser_exists)
  show "\<not> minimatch glob u (CHR ''#'' # q)"
    by (simp add: minimatch_def)
next
  assume q: "q \<noteq> [] \<and> hd q \<noteq> CHR ''!'' \<and> hd q \<noteq> CHR ''#''"
  then obtain c cs where cs: "q = c # cs" and c: "c \<noteq> CHR ''!''" "c \<noteq> CHR ''#''"
    by (cases q) auto
  show "minimatch glob u q \<longleftrightarrow> glob u q"
    using c by (simp add: cs minimatch_def)
  show "minimatch glob u (CHR ''!'' # q) \<longleftrightarrow> \<not> glob u q"
    using c by (simp add: cs minimatch_def)
qed

theorem shouldExcludeUser_minimatch_witness:
  "''svc-*'' \<noteq> [] \<and> hd ''svc-*'' \<noteq> CHR ''!'' \<and> hd ''svc-*'' \<noteq> CHR ''#''
   \<and> posixGlob ''svc-batch'' ''svc-*''
   \<and> shouldExcludeUser (minimatch posixGlob) ''svc-batch'' [''admin'', ''svc-*'']
   \<and> \<not> shouldExcludeUser (minimatch posixGlob) ''svc'' [''admin'', ''svc-*'']
   \<and> \<not> minimatch posixGlob ''svc-batch'' ''!svc-*''"
proof -
  have g: "posixGlob ''svc-batch'' ''svc-*''"
    by (simp add: posixGlob_def)
  have n: "\<not> posixGlob ''svc'' ''svc-*''" "\<not> posixGlob ''svc'' ''admin''"
    by (simp_all add: posixGlob_def)
  show ?thesis
    using shouldExcludeUser_minimatch
      [of "minimatch posixGlob" "''svc-batch''" "[''admin'', ''svc-*'']" posixGlob "''svc-*''"]
      shouldExcludeUser_minimatch
      [of "minimatch posixGlob" "''svc''" "[''admin'', ''svc-*'']" posixGlob "''admin''"]
      shouldExcludeUser_minimatch
      [of "minimatch posixGlob" "''svc''" "[''admin'', ''svc-*'']" posixGlob "''svc-*''"]
      g n
    by simp
qed

section \<open>Properties of the sync command\<close>

text \<open>What \<open>splitString\<close> and \<open>trim\<close> compute: joining the pieces with the separator
  gives the string back and no piece holds the separator; \<open>trim\<close> cuts at both ends
  only, and what is left neither starts nor ends with white space.\<close>

lemma splitString_nonempty: "splitString sep s \<noteq> []"
  by (induction s) (auto split: list.splits)

lemma joinStrings_Cons:
  "ps \<noteq> [] \<Longrightarrow> joinStrings sep ((c # p) # ps) = c # joinStrings sep (p # ps)"
  by (cases ps) simp_all

lemma joinStrings_splitString: "joinStrings sep (splitString sep s) = s"
proof (induction s)
  case Nil
  then show ?case by simp
next
  case (Cons c cs)
  obtain p ps where sp: "splitString sep cs = p # ps"
    using splitString_nonempty [of sep cs] by (cases "splitString sep cs") auto
  show ?case
  proof (cases "c = sep")
    case True
    then show ?thesis using Cons.IH sp by simp
  next
    case False
    then show ?thesis using Cons.IH sp by (cases ps) simp_all
  qed
qed

lemma splitString_no_separator: "p \<in> set (splitString sep s) \<Longrightarrow> sep \<notin> set p"
  by (induction s arbitrary: p) (auto split: list.splits if_splits)

lemma stripLeading_decomposition: "\<exists>a. s = a @ stripLeading ws s"
proof (induction ws s rule: stripLeading.induct)
  case (1 ws s)
  show ?case
  proof (cases "find (\<lambda>w. w \<noteq> [] \<and> take (length w) s = w) ws")
    case None
    then show ?thesis by (simp add: stripLeading.simps [of ws s])
  next
    case (Some w)
    from "1.IH" [OF Some] obtain a where a: "drop (length w) s = a @ stripLeading ws (drop (length w) s)"
      by blast
    have "s = take (length w) s @ drop (length w) s" by simp
    then have "s = (take (length w) s @ a) @ stripLeading ws (drop (length w) s)"
      using a by (metis append.assoc)
    moreover have "stripLeading ws s = stripLeading ws (drop (length w) s)"
      using Some by (simp add: stripLeading.simps [of ws s])
    ultimately show ?thesis by metis
  qed
qed

lemma stripLeading_done:
  "find (\<lambda>w. w \<noteq> [] \<and> take (length w) (stripLeading ws s) = w) ws = None"
proof (induction ws s rule: stripLeading.induct)
  case (1 ws s)
  show ?case
  proof (cases "find (\<lambda>w. w \<noteq> [] \<and> take (length w) s = w) ws")
    case None
    then show ?thesis by (simp add: stripLeading.simps [of ws s])
  next
    case (Some w)
    from "1.IH" [OF Some] show ?thesis
      using Some by (simp add: stripLeading.simps [of ws s])
  qed
qed

lemma trim_decomposition: "\<exists>a b. s = a @ trim s @ b"
proof -
  obtain a where a: "s = a @ stripLeading whiteSpace s"
    using stripLeading_decomposition by blast
  obtain b where b: "rev (stripLeading whiteSpace s) =
      b @ stripLeading (map rev whiteSpace) (rev (stripLeading whiteSpace s))"
    using stripLeading_decomposition by blast
  then have "rev (rev (stripLeading whiteSpace s)) = trim s @ rev b"
    unfolding trim_def by (metis rev_append)
  then have "stripLeading whiteSpace s = trim s @ rev b" by simp
  with a show ?thesis by metis
qed

lemma trim_no_trailing_white_space:
  "w \<in> set whiteSpace \<Longrightarrow> trim s \<noteq> x @ w"
proof
  assume w: "w \<in> set whiteSpace" and eq: "trim s = x @ w"
  let ?r = "stripLeading (map rev whiteSpace) (rev (stripLeading whiteSpace s))"
  have "?r = rev w @ rev x"
    using eq by (simp add: trim_def) (metis rev_append rev_rev_ident)
  moreover have "w \<noteq> []" using w by (auto simp: whiteSpace_def)
  ultimately have "rev w \<noteq> [] \<and> take (length (rev w)) ?r = rev w" by simp
  moreover have "rev w \<in> set (map rev whiteSpace)" using w by simp
  ultimately have "find (\<lambda>v. v \<noteq> [] \<and> take (length v) ?r = v) (map rev whiteSpace) \<noteq> None"
    by (metis (mono_tags, lifting) find_None_iff)
  then show False
    using stripLeading_done [of "map rev whiteSpace" "rev (stripLeading whiteSpace s)"]
    by simp
qed

lemma trim_no_leading_white_space:
  "find (\<lambda>w. w \<noteq> [] \<and> take (length w) (trim s) = w) whiteSpace = None"
proof -
  let ?t = "stripLeading whiteSpace s"
  obtain b where b: "rev ?t = b @ stripLeading (map rev whiteSpace) (rev ?t)"
    using stripLeading_decomposition by blast
  then have "rev (rev ?t) = trim s @ rev b"
    unfolding trim_def by (metis rev_append)
  then have t: "?t = trim s @ rev b" by simp
  have "\<not> (w \<noteq> [] \<and> take (length w) (trim s) = w)" if w: "w \<in> set whiteSpace" for w
  proof
    assume a: "w \<noteq> [] \<and> take (length w) (trim s) = w"
    then have "length (take (length w) (trim s)) = length w"
      by simp
    then have "length w \<le> length (trim s)"
      by simp
    then have "take (length w) ?t = w"
      using a by (subst t) simp
    then have "find (\<lambda>w. w \<noteq> [] \<and> take (length w) ?t = w) whiteSpace \<noteq> None"
      using a w by (metis (mono_tags, lifting) find_None_iff)
    then show False
      using stripLeading_done [of whiteSpace s] by simp
  qed
  then show ?thesis
    by (simp add: find_None_iff)
qed

lemma keepUser_iff:
  "keepUser matcher P u \<longleftrightarrow> enabled u \<and> \<not> (\<exists>p \<in> set P. matcher (username u) p)"
  by (simp add: keepUser_def shouldExcludeUser_exists)

text \<open>
  C7.  The effective patterns are the comma-separated segments of the configuration
  string, each trimmed, the empty ones dropped.  A fetched user is among the filtered
  users exactly when it is enabled and the matcher accepts its username for none of the
  effective patterns; a disabled user is never among them, whatever the patterns are.
\<close>

theorem filterUsers_iff:
  "excludePatterns s = filter (\<lambda>p. p \<noteq> []) (map trim (splitString CHR '','' s))
   \<and> (u \<in> set (filterUsers matcher s us) \<longleftrightarrow>
        u \<in> set us \<and> enabled u
        \<and> \<not> (\<exists>p \<in> set (excludePatterns s). matcher (username u) p))
   \<and> (\<not> enabled u \<longrightarrow> u \<notin> set (filterUsers matcher s us))"
  by (simp add: excludePatterns_def filterUsers_def keepUser_iff)

lemma excludePatterns_example:
  "excludePatterns '' svc-batch ,, bob'' = [''svc-batch'', ''bob'']"
  "excludePatterns ([CHR 0xC2, CHR 0xA0] @ ''svc-*'' @ [CHR 0xE3, CHR 0x80, CHR 0x80])
     = [''svc-*'']"
  "excludePatterns [] = []"
  by code_simp+

theorem filterUsers_iff_witness:
  "\<not> enabled bob
   \<and> bob \<notin> set (filterUsers (\<lambda>name pattern. name = pattern) '' svc-batch ,, bob''
                    [alice, bob, svcBatch])
   \<and> excludePatterns '' svc-batch ,, bob'' = [''svc-batch'', ''bob'']
   \<and> alice \<in> set (filterUsers (\<lambda>name pattern. name = pattern) '' svc-batch ,, bob''
                    [alice, bob, svcBatch])"
proof -
  note pats = excludePatterns_example(1)
  have off: "\<not> enabled bob" by (simp add: bob_def)
  have "alice \<in> set (filterUsers (\<lambda>name pattern. name = pattern) '' svc-batch ,, bob''
                    [alice, bob, svcBatch])"
    using filterUsers_iff
      [of "'' svc-batch ,, bob''" alice "\<lambda>name pattern. name = pattern" "[alice, bob, svcBatch]"]
    by (simp add: pats) (simp add: alice_def)
  then show ?thesis
    using off pats filterUsers_iff
      [of "'' svc-batch ,, bob''" bob "\<lambda>name pattern. name = pattern" "[alice, bob, svcBatch]"]
    by simp
qed

text \<open>
  C8, as stated, fails: the document \<^verbatim>\<open>groups: 5\<close> has no groups table, and loading
  succeeds, since the check is \<^verbatim>\<open>!mapping.groups\<close> and a number other than zero is
  truthy.
\<close>

theorem fromFile_number_for_groups:
  "readField numberGroupsMapping ''groups'' = Inr (Some (JNumber 5))
   \<and> fromFile (Inr numberGroupsMapping) = Inr (skipLoader numberGroupsMapping)"
proof -
  have g: "readField numberGroupsMapping ''groups'' = Inr (Some (JNumber 5))"
    by (simp add: numberGroupsMapping_def)
  show ?thesis
    by (simp add: fromFile_def g skipLoader_built)
qed

text \<open>
  C8, amended.  Loading fails exactly when the parsed document is \<^verbatim>\<open>null\<close> or has no
  truthy \<^verbatim>\<open>groups\<close> value (the key is missing, or holds \<^verbatim>\<open>null\<close>, \<^verbatim>\<open>false\<close>, zero or
  the empty string): with a \<^verbatim>\<open>TypeError\<close> for \<^verbatim>\<open>null\<close> and with the error
  \<^verbatim>\<open>missing 'groups' key\<close> otherwise.  A document with a truthy \<^verbatim>\<open>groups\<close> value gives
  the loader the constructor builds for it; the empty table is such a value.  The error
  is raised at load time: with a provider and options that pass the checks before it,
  \<open>runSync\<close> ends with this error whatever the Keycloak client would answer, so nothing
  is fetched or resolved.
\<close>

theorem fromFile_groups_truthy:
  "((\<exists>e. fromFile (Inr doc) = Inl e) \<longleftrightarrow>
      (case optionalRead (Some doc) ''groups'' of None \<Rightarrow> True | Some g \<Rightarrow> \<not> truthy g))
   \<and> fromFile (Inr JNull) = Inl TypeError
   \<and> (doc \<noteq> JNull
        \<and> (case optionalRead (Some doc) ''groups'' of None \<Rightarrow> True | Some g \<Rightarrow> \<not> truthy g)
       \<longrightarrow> fromFile (Inr doc) = Inl (Error ''Invalid mapping file: missing 'groups' key''))
   \<and> (\<forall>g. optionalRead (Some doc) ''groups'' = Some g \<and> truthy g \<longrightarrow>
        (\<exists>this. fromFile (Inr doc) = Inr this \<and> MappingLoader_new doc = Inr this
                \<and> mapping this = doc))
   \<and> fromFile (Inr (JObject [''groups'' \<mapsto> JObject Map.empty]))
       = Inr (skipLoader (JObject [''groups'' \<mapsto> JObject Map.empty]))
   \<and> (\<forall>e k. fromFile (files world (mappingPath options)) = Inl e
         \<and> provider options = ''keycloak''
         \<and> \<not> falsy (keycloakUrl options) \<and> \<not> falsy (keycloakRealm options)
         \<and> \<not> falsy (keycloakClientId options) \<and> \<not> falsy (keycloakClientSecret options) \<longrightarrow>
        runSync matcher (world\<lparr> keycloak := k \<rparr>) options = Inl e)"
proof (intro conjI)
  show "(\<exists>e. fromFile (Inr doc) = Inl e) \<longleftrightarrow>
      (case optionalRead (Some doc) ''groups'' of None \<Rightarrow> True | Some g \<Rightarrow> \<not> truthy g)"
    by (cases doc)
       (auto simp: fromFile_def MappingLoader_new_def split: option.splits sum.splits)
  show "fromFile (Inr JNull) = Inl TypeError"
    by (simp add: fromFile_def)
  show "doc \<noteq> JNull
        \<and> (case optionalRead (Some doc) ''groups'' of None \<Rightarrow> True | Some g \<Rightarrow> \<not> truthy g)
       \<longrightarrow> fromFile (Inr doc) = Inl (Error ''Invalid mapping file: missing 'groups' key'')"
    by (cases doc) (auto simp: fromFile_def split: option.splits)
  show "\<forall>g. optionalRead (Some doc) ''groups'' = Some g \<and> truthy g \<longrightarrow>
        (\<exists>this. fromFile (Inr doc) = Inr this \<and> MappingLoader_new doc = Inr this
                \<and> mapping this = doc)"
    by (cases doc) (auto simp: fromFile_def MappingLoader_new_def)
  show "fromFile (Inr (JObject [''groups'' \<mapsto> JObject Map.empty]))
       = Inr (skipLoader (JObject [''groups'' \<mapsto> JObject Map.empty]))"
    by (simp add: fromFile_def MappingLoader_new_def skipLoader_def)
  show "\<forall>e k. fromFile (files world (mappingPath options)) = Inl e
         \<and> provider options = ''keycloak''
         \<and> \<not> falsy (keycloakUrl options) \<and> \<not> falsy (keycloakRealm options)
         \<and> \<not> falsy (keycloakClientId options) \<and> \<not> falsy (keycloakClientSecret options) \<longrightarrow>
        runSync matcher (world\<lparr> keycloak := k \<rparr>) options = Inl e"
    by (simp add: runSync_def)
qed

theorem fromFile_groups_truthy_witness:
  "fromFile (files noGroupsWorld (mappingPath exampleOptions))
     = Inl (Error ''Invalid mapping file: missing 'groups' key'')
   \<and> provider exampleOptions = ''keycloak''
   \<and> \<not> falsy (keycloakUrl exampleOptions) \<and> \<not> falsy (keycloakRealm exampleOptions)
   \<and> \<not> falsy (keycloakClientId exampleOptions)
   \<and> \<not> falsy (keycloakClientSecret exampleOptions)
   \<and> runSync (\<lambda>name pattern. name = pattern)
        (noGroupsWorld\<lparr> keycloak := client flakyKeycloak \<rparr>) exampleOptions
      = Inl (Error ''Invalid mapping file: missing 'groups' key'')
   \<and> optionalRead (Some scenarioMapping) ''groups'' = Some (JObject scenarioTable)
   \<and> truthy (JObject scenarioTable)
   \<and> fromFile (Inr scenarioMapping) = Inr scenarioLoader"
proof -
  have load: "fromFile (files noGroupsWorld (mappingPath exampleOptions))
     = Inl (Error ''Invalid mapping file: missing 'groups' key'')"
    by (simp add: noGroupsWorld_def fromFile_def)
  have opts: "provider exampleOptions = ''keycloak''
     \<and> \<not> falsy (keycloakUrl exampleOptions) \<and> \<not> falsy (keycloakRealm exampleOptions)
     \<and> \<not> falsy (keycloakClientId exampleOptions)
     \<and> \<not> falsy (keycloakClientSecret exampleOptions)"
    by (simp add: exampleOptions_def falsy_def)
  have g: "optionalRead (Some scenarioMapping) ''groups'' = Some (JObject scenarioTable)"
    by (simp add: scenarioMapping_def)
  show ?thesis
    using load opts g scenarioLoader_built
      fromFile_groups_truthy
        [where doc = scenarioMapping
           and world = noGroupsWorld and options = exampleOptions
           and matcher = "\<lambda>name pattern. name = pattern"]
    by simp
qed

section \<open>Properties of the aggregate lookup\<close>

lemma fetchMembers_fst_cong:
  assumes "lm fid = Inl e"
  shows "fst (fetchMembers lm grps (m, w)) = fst (fetchMembers (lm(fid := Inr [])) grps (m, w'))"
  using assms
proof (induction grps arbitrary: m w w')
  case Nil
  then show ?case by simp
next
  case (Cons g grps)
  show ?case
  proof (cases "gid g = fid")
    case True
    then show ?thesis using Cons.prems Cons.IH [OF Cons.prems] by simp
  next
    case False
    then show ?thesis using Cons.IH [OF Cons.prems] by (simp split: sum.splits)
  qed
qed

lemma fetchMembers_warnings_mono:
  "set w \<subseteq> set (snd (fetchMembers lm grps (m, w)))"
proof (induction grps arbitrary: m w)
  case Nil
  then show ?case by simp
next
  case (Cons g grps)
  show ?case
  proof (cases "lm (gid g)")
    case (Inl e)
    then show ?thesis using Cons.IH [of "w @ [memberWarning g e]" m] by auto
  next
    case (Inr ms)
    then show ?thesis using Cons.IH [of w "addMembers (gname g) ms m"] by simp
  qed
qed

lemma fetchMembers_warns:
  assumes "g \<in> set grps" and "lm (gid g) = Inl e"
  shows "memberWarning g e \<in> set (snd (fetchMembers lm grps (m, w)))"
  using assms
proof (induction grps arbitrary: m w)
  case Nil
  then show ?case by simp
next
  case (Cons h grps)
  show ?case
  proof (cases "h = g")
    case True
    then show ?thesis
      using Cons.prems(2) fetchMembers_warnings_mono [of "w @ [memberWarning g e]" lm grps m]
      by auto
  next
    case False
    then have "g \<in> set grps" using Cons.prems(1) by simp
    from Cons.IH [OF this Cons.prems(2)] show ?thesis
      by (cases "lm (gid h)") simp_all
  qed
qed

lemma truncate_withGroups: "User.truncate (withGroups m u) = u"
  by (simp add: withGroups_def User.truncate_def User.extend_def)

lemma getUsersWithGroups_result:
  "getUsersWithGroups this =
     (if \<not> connected this then (Inl notConnected, [])
      else case getUsers this of
             Inl e \<Rightarrow> (Inl e, [])
           | Inr users \<Rightarrow>
               (case getGroups this of
                  Inl e \<Rightarrow> (Inl e, [])
                | Inr grps \<Rightarrow>
                    (Inr (map (withGroups (fst (fetchMembers (groups_listMembers (client this)) grps
                                  (initUserGroups users Map.empty, [])))) users),
                     snd (fetchMembers (groups_listMembers (client this)) grps
                            (initUserGroups users Map.empty, [])))))"
  by (simp add: getUsersWithGroups_def split: sum.splits prod.splits)

lemma getUsers_client:
  "getUsers (this\<lparr> client := (client this)\<lparr> groups_listMembers := lm \<rparr> \<rparr>) = getUsers this"
  by (simp add: getUsers_def)

lemma getGroups_client:
  "getGroups (this\<lparr> client := (client this)\<lparr> groups_listMembers := lm \<rparr> \<rparr>) = getGroups this"
  by (simp add: getGroups_def)

text \<open>
  C9.  When the member listing of a group fails, the users returned, with the
  memberships from every other group, are those of the run in which that group has no
  members; a warning for each fetched group with the failing id is logged; and the users
  returned are the fetched users, one for one and in order, so none is dropped.
\<close>

theorem getUsersWithGroups_member_failure:
  assumes "groups_listMembers (client this) fid = Inl e"
  shows "fst (getUsersWithGroups this) =
         fst (getUsersWithGroups
                (this\<lparr> client := (client this)
                   \<lparr> groups_listMembers := (groups_listMembers (client this))(fid := Inr []) \<rparr> \<rparr>))
       \<and> (\<forall>users grps. getUsers this = Inr users \<and> getGroups this = Inr grps \<longrightarrow>
            (\<forall>g \<in> set grps. gid g = fid \<longrightarrow>
               memberWarning g e \<in> set (snd (getUsersWithGroups this)))
            \<and> (\<exists>result. fst (getUsersWithGroups this) = Inr result
                  \<and> map User.truncate result = users))"
proof (intro conjI allI impI)
  show "fst (getUsersWithGroups this) =
         fst (getUsersWithGroups
                (this\<lparr> client := (client this)
                   \<lparr> groups_listMembers := (groups_listMembers (client this))(fid := Inr []) \<rparr> \<rparr>))"
    unfolding getUsersWithGroups_result getUsers_client getGroups_client
    using fetchMembers_fst_cong [where lm = "groups_listMembers (client this)" and fid = fid
        and e = e and w = "[]" and w' = "[]"] assms
    by (simp split: sum.splits)
next
  fix users grps
  assume ok: "getUsers this = Inr users \<and> getGroups this = Inr grps"
  then have conn: "connected this" by (auto simp: getUsers_def split: if_splits)
  show "\<forall>g \<in> set grps. gid g = fid \<longrightarrow>
          memberWarning g e \<in> set (snd (getUsersWithGroups this))"
    using ok conn assms by (auto simp: getUsersWithGroups_result intro: fetchMembers_warns)
  show "\<exists>result. fst (getUsersWithGroups this) = Inr result
          \<and> map User.truncate result = users"
    using ok conn by (simp add: getUsersWithGroups_result comp_def truncate_withGroups)
qed

lemma flakyKeycloak_run:
  "getUsersWithGroups flakyKeycloak =
     (Inr [\<lparr> uid = ''u1'', username = ''alice'', email = ''alice@example.org'', enabled = True,
             firstName = None, lastName = None, user_groups = [''guests''] \<rparr>,
           \<lparr> uid = ''u2'', username = ''bob'', email = [], enabled = False,
             firstName = None, lastName = None, user_groups = [] \<rparr>],
      [''Warning: Could not get members for group admins: Error: timeout''])"
  by (simp add: getUsersWithGroups_def getUsers_def getGroups_def flakyKeycloak_def
      aliceRep_def bobRep_def toUser_def withGroups_def memberWarning_def
      User.extend_def UserWithGroups.fields_def)

theorem getUsersWithGroups_member_failure_witness:
  "groups_listMembers (client flakyKeycloak) ''g1'' = Inl ''timeout''
   \<and> fst (getUsersWithGroups flakyKeycloak) =
       fst (getUsersWithGroups
              (flakyKeycloak\<lparr> client := (client flakyKeycloak)
                 \<lparr> groups_listMembers :=
                     (groups_listMembers (client flakyKeycloak))(''g1'' := Inr []) \<rparr> \<rparr>))
   \<and> getUsersWithGroups flakyKeycloak =
       (Inr [\<lparr> uid = ''u1'', username = ''alice'', email = ''alice@example.org'', enabled = True,
               firstName = None, lastName = None, user_groups = [''guests''] \<rparr>,
             \<lparr> uid = ''u2'', username = ''bob'', email = [], enabled = False,
               firstName = None, lastName = None, user_groups = [] \<rparr>],
        [''Warning: Could not get members for group admins: Error: timeout''])"
proof -
  have fails: "groups_listMembers (client flakyKeycloak) ''g1'' = Inl ''timeout''"
    by (simp add: flakyKeycloak_def)
  show ?thesis
    using fails flakyKeycloak_run
      getUsersWithGroups_member_failure [OF fails]
    by simp
qed

section \<open>Properties of the manifests\<close>

lemma fromFile_groups:
  assumes "fromFile parsed = Inr this"
  shows "\<exists>g. readField (mapping this) ''groups'' = Inr (Some g) \<and> truthy g"
proof -
  from assms obtain m where p: "parsed = Inr m"
    by (cases parsed) (auto simp: fromFile_def)
  from assms p obtain g where g: "readField m ''groups'' = Inr (Some g)" and t: "truthy g"
    and new: "MappingLoader_new m = Inr this"
    by (auto simp: fromFile_def split: sum.splits option.splits if_splits)
  from new have "mapping this = m" by (rule MappingLoader_new_fields(1))
  with g t show ?thesis by auto
qed

lemma resolveGroup_returns:
  assumes "readField (mapping this) ''groups'' = Inr (Some g)" and "g \<noteq> JNull"
  shows "\<exists>x. resolveGroup this G = Inr x"
  using assms by (cases g) (simp_all add: resolveGroup_def)

lemma generateGroupsLoop_result:
  assumes "\<And>n. \<exists>x. resolveGroup L n = Inr x"
  shows "generateGroupsLoop L grps (doc, m) =
     Inr (doc @ List.map_filter
                  (\<lambda>g. case resolveGroup L (gname g) of
                         Inr (Some r) \<Rightarrow> Some (toOcteliumGroup r) | _ \<Rightarrow> None) grps,
          \<lambda>n. if n \<in> set (map gname grps)
               then (case resolveGroup L n of Inr (Some r) \<Rightarrow> Some r | _ \<Rightarrow> m n)
               else m n)"
proof (induction grps arbitrary: doc m)
  case Nil
  then show ?case by (simp add: List.map_filter_simps)
next
  case (Cons g grps)
  from assms obtain x where x: "resolveGroup L (gname g) = Inr x" by blast
  show ?case
  proof (cases x)
    case None
    have step: "generateGroupsLoop L (g # grps) (doc, m) = generateGroupsLoop L grps (doc, m)"
      using x None by simp
    show ?thesis
      unfolding step Cons.IH
      using x None
      by (auto simp: List.map_filter_simps fun_eq_iff split: sum.splits option.splits)
  next
    case (Some r)
    have step: "generateGroupsLoop L (g # grps) (doc, m) =
                generateGroupsLoop L grps (doc @ [toOcteliumGroup r], m(gname g \<mapsto> r))"
      using x Some by simp
    show ?thesis
      unfolding step Cons.IH
      using x Some
      by (auto simp: List.map_filter_simps fun_eq_iff split: sum.splits option.splits)
  qed
qed

lemma translateGroups_map_filter:
  "translateGroups m raws = List.map_filter (\<lambda>raw. map_option r_octeliumGroup (m raw)) raws"
  by (induction raws) (auto simp: List.map_filter_simps split: option.splits)

text \<open>
  C4.  For a loader whose mapping has a groups value other than \<^verbatim>\<open>null\<close> (every
  loader that \<^verbatim>\<open>fromFile\<close> returns is one, by \<open>fromFile_groups\<close>), the groups document
  is generated, and in the rendered users document each user's group list contains only
  names that are group names of the rendered groups document.  A raw group of a user whose resolution
  is absent has no entry in the mapping of resolved groups and contributes nothing to
  the list; every name of the list is the target name of a fetched raw group that the
  user belongs to and that resolved; the list is the list of those target names, in the
  user's order.
\<close>

theorem rendered_groups_resolved:
  assumes "readField (mapping L) ''groups'' = Inr (Some g)" and "g \<noteq> JNull"
  shows "\<exists>doc resolvedGroups.
     generateGroupsYaml grps L = Inr (doc, resolvedGroups)
     \<and> (\<forall>u \<in> set (generateUsersYaml filteredUsers resolvedGroups).
          \<forall>name \<in> set (case ou_groups u of None \<Rightarrow> [] | Some names \<Rightarrow> names).
            name \<in> set (map og_name doc))
     \<and> (\<forall>user \<in> set filteredUsers. \<forall>raw \<in> set (user_groups user).
          resolveGroup L raw = Inr None \<longrightarrow>
            resolvedGroups raw = None \<and> translateGroups resolvedGroups [raw] = [])
     \<and> (\<forall>user \<in> set filteredUsers.
          \<forall>name \<in> set (translateGroups resolvedGroups (user_groups user)).
            \<exists>raw r. raw \<in> set (user_groups user) \<and> raw \<in> set (map gname grps)
                  \<and> resolveGroup L raw = Inr (Some r) \<and> r_octeliumGroup r = name)
     \<and> map ou_groups (generateUsersYaml filteredUsers resolvedGroups) =
         map (\<lambda>user. Some (List.map_filter
                (\<lambda>raw. if raw \<in> set (map gname grps)
                       then (case resolveGroup L raw of
                               Inr (Some r) \<Rightarrow> Some (r_octeliumGroup r) | _ \<Rightarrow> None)
                       else None)
                (user_groups user))) filteredUsers"
proof -
  have total: "\<exists>x. resolveGroup L n = Inr x" for n
    using assms by (rule resolveGroup_returns)
  define doc where "doc = List.map_filter
      (\<lambda>g. case resolveGroup L (gname g) of
             Inr (Some r) \<Rightarrow> Some (toOcteliumGroup r) | _ \<Rightarrow> None) grps"
  define resolved where "resolved =
      (\<lambda>n. if n \<in> set (map gname grps)
           then (case resolveGroup L n of Inr (Some r) \<Rightarrow> Some r | _ \<Rightarrow> None)
           else None)"
  have gen: "generateGroupsYaml grps L = Inr (doc, resolved)"
    unfolding generateGroupsYaml_def generateGroupsLoop_result [OF total] doc_def resolved_def
    by simp
  have res: "resolved raw = Some r \<longleftrightarrow>
               raw \<in> set (map gname grps) \<and> resolveGroup L raw = Inr (Some r)" for raw r
    by (auto simp: resolved_def split: sum.splits option.splits)
  have names: "set (map og_name doc) =
      {r_octeliumGroup r | r raw. raw \<in> set (map gname grps) \<and> resolveGroup L raw = Inr (Some r)}"
    unfolding doc_def
  proof (induction grps)
    case Nil
    then show ?case by (simp add: List.map_filter_simps)
  next
    case (Cons g grps)
    show ?case
    proof (cases "resolveGroup L (gname g)")
      case (Inl e)
      then show ?thesis
        using Cons.IH by (auto simp: List.map_filter_simps)
    next
      case (Inr x)
      then show ?thesis
        using Cons.IH
        by (cases x) (auto simp: List.map_filter_simps toOcteliumGroup_def)
    qed
  qed
  have tr: "name \<in> set (translateGroups resolved raws) \<longleftrightarrow>
      (\<exists>raw r. raw \<in> set raws \<and> resolved raw = Some r \<and> r_octeliumGroup r = name)"
    for name raws
    unfolding translateGroups_map_filter
    by (auto simp: List.map_filter_def) force
  have integrity: "\<forall>u \<in> set (generateUsersYaml filteredUsers resolved).
          \<forall>name \<in> set (case ou_groups u of None \<Rightarrow> [] | Some names \<Rightarrow> names).
            name \<in> set (map og_name doc)"
  proof (intro ballI)
    fix u name
    assume u: "u \<in> set (generateUsersYaml filteredUsers resolved)"
      and n: "name \<in> set (case ou_groups u of None \<Rightarrow> [] | Some names \<Rightarrow> names)"
    from u obtain user where "u = toOcteliumUser resolved user"
      by (auto simp: generateUsersYaml_def)
    with n have "name \<in> set (translateGroups resolved (user_groups user))"
      by (simp add: toOcteliumUser_def)
    then obtain raw r where "resolved raw = Some r" and "r_octeliumGroup r = name"
      unfolding tr by blast
    then show "name \<in> set (map og_name doc)"
      unfolding names res by blast
  qed
  have skipped: "\<forall>user \<in> set filteredUsers. \<forall>raw \<in> set (user_groups user).
          resolveGroup L raw = Inr None \<longrightarrow>
            resolved raw = None \<and> translateGroups resolved [raw] = []"
    by (simp add: resolved_def)
  have origin: "\<forall>user \<in> set filteredUsers.
          \<forall>name \<in> set (translateGroups resolved (user_groups user)).
            \<exists>raw r. raw \<in> set (user_groups user) \<and> raw \<in> set (map gname grps)
                  \<and> resolveGroup L raw = Inr (Some r) \<and> r_octeliumGroup r = name"
  proof (intro ballI)
    fix user name
    assume "name \<in> set (translateGroups resolved (user_groups user))"
    then obtain raw r where "raw \<in> set (user_groups user)" and "resolved raw = Some r"
      and "r_octeliumGroup r = name"
      using tr [of name "user_groups user"] by blast
    then show "\<exists>raw r. raw \<in> set (user_groups user) \<and> raw \<in> set (map gname grps)
                  \<and> resolveGroup L raw = Inr (Some r) \<and> r_octeliumGroup r = name"
      using res [of raw r] by blast
  qed
  have lists: "map ou_groups (generateUsersYaml filteredUsers resolved) =
         map (\<lambda>user. Some (List.map_filter
                (\<lambda>raw. if raw \<in> set (map gname grps)
                       then (case resolveGroup L raw of
                               Inr (Some r) \<Rightarrow> Some (r_octeliumGroup r) | _ \<Rightarrow> None)
                       else None)
                (user_groups user))) filteredUsers"
  proof -
    have "(\<lambda>raw. map_option r_octeliumGroup (resolved raw)) =
          (\<lambda>raw. if raw \<in> set (map gname grps)
                 then (case resolveGroup L raw of
                         Inr (Some r) \<Rightarrow> Some (r_octeliumGroup r) | _ \<Rightarrow> None)
                 else None)"
      by (auto simp: fun_eq_iff resolved_def split: sum.splits option.splits)
    then show ?thesis
      by (simp add: generateUsersYaml_def toOcteliumUser_def comp_def
          translateGroups_map_filter)
  qed
  from gen integrity skipped origin lists show ?thesis by blast
qed

lemma resolve_scenario:
  "resolveGroup scenarioLoader ''admins''
     = Inr (Some \<lparr> r_octeliumGroup = JString ''administrators'',
                    r_displayName = JString ''admins'',
                    r_policies = JArray [JString ''admin-policy''], r_sync = JBool True \<rparr>)"
  "resolveGroup scenarioLoader ''guests'' = Inr None"
  by (simp_all add: resolveGroup_def inheritedOr_def scenarioLoader_def scenarioMapping_def
      scenarioTable_def objectPrototypeKeys_def)

theorem rendered_groups_resolved_witness:
  "fromFile (Inr scenarioMapping) = Inr scenarioLoader
   \<and> readField (mapping scenarioLoader) ''groups'' = Inr (Some (JObject scenarioTable))
   \<and> JObject scenarioTable \<noteq> JNull
   \<and> map og_name (fst (projr (generateGroupsYaml scenarioGroups scenarioLoader)))
       = [JString ''administrators'']
   \<and> map ou_groups
        (generateUsersYaml [alice]
           (snd (projr (generateGroupsYaml scenarioGroups scenarioLoader))))
       = [Some [JString ''administrators'']]
   \<and> \<not> isl (generateGroupsYaml scenarioGroups scenarioLoader)"
proof -
  have "readField scenarioMapping ''groups'' = Inr (Some (JObject scenarioTable))"
    by (simp add: scenarioMapping_def)
  then have load: "fromFile (Inr scenarioMapping) = Inr scenarioLoader"
    by (simp add: fromFile_def scenarioLoader_built)
  have g: "readField (mapping scenarioLoader) ''groups'' = Inr (Some (JObject scenarioTable))"
    by (simp add: scenarioLoader_def scenarioMapping_def)
  have n: "JObject scenarioTable \<noteq> JNull"
    by simp
  from rendered_groups_resolved [OF g n, of scenarioGroups "[alice]"]
  obtain doc resolvedGroups
    where gen: "generateGroupsYaml scenarioGroups scenarioLoader = Inr (doc, resolvedGroups)"
      and lists: "map ou_groups (generateUsersYaml [alice] resolvedGroups) =
         map (\<lambda>user. Some (List.map_filter
                (\<lambda>raw. if raw \<in> set (map gname scenarioGroups)
                       then (case resolveGroup scenarioLoader raw of
                               Inr (Some r) \<Rightarrow> Some (r_octeliumGroup r) | _ \<Rightarrow> None)
                       else None)
                (user_groups user))) [alice]"
    by blast
  have doc: "map og_name doc = [JString ''administrators'']"
    using gen
    by (auto simp: generateGroupsYaml_def scenarioGroups_def resolve_scenario
        toOcteliumGroup_def)
  have "map ou_groups (generateUsersYaml [alice] resolvedGroups)
          = [Some [JString ''administrators'']]"
    unfolding lists
    by (simp add: alice_def scenarioGroups_def resolve_scenario List.map_filter_simps)
  then show ?thesis
    using load g gen doc by simp
qed

end
